theory Spec2Isabelle
  imports Complex_Main "HOL-Library.Multiset"
begin

section \<open>Values and errors\<close>

text \<open>
  A Python float is a finite rational or one of the three special values. Arithmetic on
  finite floats is modelled exactly (no IEEE rounding).
\<close>

datatype pyfloat = Fin rat | PInf | NInf | NaN

text \<open>The exceptions that the modelled code paths raise.\<close>

datatype error =
    ValueError string
  | OverflowError
  | TypeError
  | IndexError
  | KeyError
  | AttributeError
  | NotImplementedError string
  | IOError string

section \<open>Feature importance\<close>

text \<open>
  What \<open>_get_feature_importance\<close> inspects of a pipeline step: whether it has a
  \<open>get_support\<close> method (and the indices it returns when called with
  \<open>indices=True\<close>), and its array-valued attributes by name.
\<close>

record step =
  get_support :: "nat list option"
  step_attrs :: "string \<rightharpoonup> pyfloat list"

type_synonym pipeline = "step list"

text \<open>\<open>np.full(num_features, fill_value)\<close>\<close>

definition np_full :: "nat \<Rightarrow> pyfloat \<Rightarrow> pyfloat list" where
  "np_full n v = replicate n v"

text \<open>
  \<open>arr[idx] = vals\<close> for an index array: an index out of range raises IndexError; the
  values are written position by position, a single value is broadcast, any other length
  mismatch raises ValueError.
\<close>

fun assign_at :: "pyfloat list \<Rightarrow> nat list \<Rightarrow> pyfloat list \<Rightarrow> pyfloat list" where
  "assign_at arr [] vs = arr"
| "assign_at arr (i # idx) [] = arr"
| "assign_at arr (i # idx) (v # vs) = assign_at (arr[i := v]) idx vs"

definition np_setitem :: "pyfloat list \<Rightarrow> nat list \<Rightarrow> pyfloat list \<Rightarrow> error + pyfloat list" where
  "np_setitem arr idx vals =
     (if \<exists>i \<in> set idx. length arr \<le> i then Inl IndexError
      else if length vals = length idx then Inr (assign_at arr idx vals)
      else if length vals = 1 then Inr (assign_at arr idx (replicate (length idx) (hd vals)))
      else Inl (ValueError ''shape mismatch''))"

text \<open>
  \<open>_get_feature_importance(est_name, pipeline, num_features, fill_value)\<close>; the table
  \<open>cfg.importance_attr\<close> is a parameter. The result None is the absent-importance marker.
\<close>

definition get_feature_importance ::
  "(string \<rightharpoonup> string) \<Rightarrow> string \<Rightarrow> pipeline \<Rightarrow> nat \<Rightarrow> pyfloat \<Rightarrow> error + pyfloat list option" where
  "get_feature_importance imp_attr est_name pipeline num_features fill_value =
     (if length pipeline < 2 then Inl IndexError
      else
        let dim_red = pipeline ! 1;
            est = last pipeline
        in case get_support dim_red of
             None \<Rightarrow> Inr None
           | Some index_selected_features \<Rightarrow>
               (case imp_attr est_name of
                  None \<Rightarrow> Inl KeyError
                | Some a \<Rightarrow>
                    (case step_attrs est a of
                       None \<Rightarrow> Inr None
                     | Some vals \<Rightarrow>
                         (case np_setitem (np_full num_features fill_value)
                                 index_selected_features vals of
                            Inl e \<Rightarrow> Inl e
                          | Inr fi \<Rightarrow> Inr (Some fi)))))"

text \<open>A three-step pipeline used to instantiate the results below.\<close>

definition ex_pipeline :: pipeline where
  "ex_pipeline =
     [\<lparr>get_support = None, step_attrs = Map.empty\<rparr>,
      \<lparr>get_support = Some [0, 2], step_attrs = Map.empty\<rparr>,
      \<lparr>get_support = None, step_attrs = [''coef_'' \<mapsto> [Fin 1, Fin 2]]\<rparr>]"

definition ex_importance_attr :: "string \<rightharpoonup> string" where
  "ex_importance_attr = [''svm'' \<mapsto> ''coef_'']"

section \<open>Python values, the workflow object and its surroundings\<close>

text \<open>
  The values held by attributes of a \<open>BaseWorkflow\<close>. Objects of classes defined outside
  \<open>base.py\<close> (the dataset collection, the result accumulator, arrays, targets, covariate
  tables) are opaque values of type \<open>'v\<close>; what the collaborators do with them is given by
  the environment below. Sample IDs are values as well.
\<close>

datatype 'v pyval =
    PyNone
  | PyBool bool
  | PyInt int
  | PyFloat pyfloat
  | PyStr string
  | PyList "'v pyval list"
  | Ext 'v

text \<open>
  A file holds either a pickled dictionary (keys in insertion order) or other bytes, of
  which only the size matters. Pickling is modelled as storing the dictionary itself.
\<close>

datatype 'v fcontent = Pickle "(string \<times> 'v pyval) list" | Other nat

text \<open>What the run does to its collaborators, in order.\<close>

datatype 'v event =
    EvModalityIds
  | EvSampleIds
  | EvTargetSizes
  | EvSplit "'v pyval" "'v pyval list" "'v pyval list"
  | EvGetSubsets
  | EvImpute string
  | EvPreprocess string
  | EvCovariates
  | EvDeconfound string
  | EvOptimize string 'v
  | EvEval string
  | EvCheckpoint
  | EvSave
  | EvLoad
  | EvSummarize "'v pyval"
  | EvVisualize

text \<open>
  The state that methods read and change: the attributes of \<open>self\<close>, the files, the
  trace of events, and how many random numbers were drawn so far.
\<close>

record 'v sys =
  self :: "string \<rightharpoonup> 'v pyval"
  files :: "string \<rightharpoonup> 'v fcontent"
  trace :: "'v event list"
  rng :: nat

text \<open>The constants of \<open>config_neuropredict\<close> that \<open>base.py\<close> uses.\<close>

record cfg =
  workflow_types :: "string list"
  GRIDSEARCH_LEVELS :: "string list"
  results_file_name :: string
  results_to_save :: "string list"
  missing_data_flag_name :: string
  default_preprocessing_method :: string
  importance_attr :: "string \<rightharpoonup> string"

text \<open>
  The collaborators: functions imported from other modules, methods of the dataset
  collection and of the result accumulator, the abstract methods of the subclass, and the
  platform (random numbers, whether a file can be opened for writing, what a cast of a
  non-finite float to \<open>int64\<close> does).
\<close>

record 'v env =
  int_of_str :: "string \<Rightarrow> int option"
  int64_invalid :: "error + int"
  randbelow :: "nat \<Rightarrow> nat \<Rightarrow> nat"
  can_open_w :: "string \<Rightarrow> bool"
  picklable :: "(string \<times> 'v pyval) list \<Rightarrow> bool"
  partial_dump :: "(string \<times> 'v pyval) list \<Rightarrow> nat"
  check_num_procs :: "'v pyval \<Rightarrow> error + int"
  chance_accuracy :: "'v pyval \<Rightarrow> error + 'v pyval"
  make_results :: "bool \<Rightarrow> 'v pyval \<Rightarrow> 'v pyval \<Rightarrow> 'v pyval \<Rightarrow> error + 'v"
  modality_ids :: "'v \<Rightarrow> 'v pyval"
  samplet_ids :: "'v \<Rightarrow> 'v pyval list"
  target_sizes :: "'v \<Rightarrow> 'v pyval"
  get_subsets :: "'v \<Rightarrow> 'v pyval list \<Rightarrow> 'v pyval list
                    \<Rightarrow> error + (string \<times> ('v \<times> 'v) \<times> ('v \<times> 'v)) list"
  get_attr :: "'v \<Rightarrow> string \<Rightarrow> string \<Rightarrow> error + bool"
  get_common_attr :: "'v \<Rightarrow> 'v pyval \<Rightarrow> 'v pyval list \<Rightarrow> error + 'v \<times> 'v"
  impute_missing_data :: "'v \<Rightarrow> 'v \<Rightarrow> 'v pyval \<Rightarrow> 'v \<Rightarrow> error + 'v \<times> 'v"
  preproc_fit :: "string \<Rightarrow> 'v \<Rightarrow> error + 'v"
  preproc_transform :: "'v \<Rightarrow> 'v \<Rightarrow> error + 'v"
  encode :: "'v \<Rightarrow> 'v \<Rightarrow> error + 'v \<times> 'v"
  column_stack :: "'v \<Rightarrow> error + 'v"
  deconf_fit :: "'v pyval \<Rightarrow> 'v pyval \<Rightarrow> 'v \<Rightarrow> 'v \<Rightarrow> error + 'v"
  deconf_transform :: "'v \<Rightarrow> 'v \<Rightarrow> 'v \<Rightarrow> error + 'v"
  shape1 :: "'v \<Rightarrow> nat"
  compute_reduced_dimensionality :: "'v pyval \<Rightarrow> int \<Rightarrow> nat \<Rightarrow> error + 'v pyval"
  make_pipeline :: "'v pyval \<Rightarrow> 'v pyval \<Rightarrow> 'v pyval \<Rightarrow> int \<Rightarrow> 'v pyval
                      \<Rightarrow> error + 'v \<times> 'v"
  grid_search_fit :: "'v \<Rightarrow> 'v \<Rightarrow> 'v \<Rightarrow> 'v \<Rightarrow> 'v pyval \<Rightarrow> error + pipeline \<times> 'v"
  add_attr :: "'v \<Rightarrow> 'v pyval \<Rightarrow> string \<Rightarrow> string \<Rightarrow> pyfloat list option \<Rightarrow> error + 'v"
  eval_predictions :: "'v \<Rightarrow> pipeline \<Rightarrow> 'v \<Rightarrow> 'v \<Rightarrow> 'v pyval \<Rightarrow> string \<Rightarrow> error + 'v"
  results_dump :: "'v \<Rightarrow> 'v pyval \<Rightarrow> (string \<rightharpoonup> 'v fcontent) \<Rightarrow> error + (string \<rightharpoonup> 'v fcontent)"
  summarize :: "(string \<rightharpoonup> 'v pyval) \<Rightarrow> error + 'v pyval"
  visualize :: "(string \<rightharpoonup> 'v pyval) \<Rightarrow> error + unit"

subsection \<open>Methods as state transformers that may raise\<close>

type_synonym ('v, 'a) act = "'v sys \<Rightarrow> (error + 'a) \<times> 'v sys"

definition ret :: "'a \<Rightarrow> ('v, 'a) act" where
  "ret x = (\<lambda>s. (Inr x, s))"

definition raise :: "error \<Rightarrow> ('v, 'a) act" where
  "raise e = (\<lambda>s. (Inl e, s))"

definition bindm :: "('v, 'a) act \<Rightarrow> ('a \<Rightarrow> ('v, 'b) act) \<Rightarrow> ('v, 'b) act" where
  "bindm f g = (\<lambda>s. case f s of (Inl e, s') \<Rightarrow> (Inl e, s') | (Inr x, s') \<Rightarrow> g x s')"

definition thenm :: "('v, unit) act \<Rightarrow> ('v, 'b) act \<Rightarrow> ('v, 'b) act" where
  "thenm f g = bindm f (\<lambda>_. g)"

definition lift :: "error + 'a \<Rightarrow> ('v, 'a) act" where
  "lift r = (\<lambda>s. (r, s))"

definition emit :: "'v event \<Rightarrow> ('v, unit) act" where
  "emit ev = (\<lambda>s. (Inr (), s\<lparr>trace := trace s @ [ev]\<rparr>))"

text \<open>\<open>self.name\<close> raises AttributeError when the attribute is not set.\<close>

definition read_attr :: "string \<Rightarrow> ('v, 'v pyval) act" where
  "read_attr name = (\<lambda>s. (case self s name of None \<Rightarrow> Inl AttributeError | Some v \<Rightarrow> Inr v, s))"

definition set_attr :: "string \<Rightarrow> 'v pyval \<Rightarrow> ('v, unit) act" where
  "set_attr name v = (\<lambda>s. (Inr (), s\<lparr>self := (self s)(name \<mapsto> v)\<rparr>))"

text \<open>Drawing random numbers, and writing files.\<close>

definition draw :: "(nat \<Rightarrow> 'a \<times> nat) \<Rightarrow> ('v, 'a) act" where
  "draw f = (\<lambda>s. (Inr (fst (f (rng s))), s\<lparr>rng := snd (f (rng s))\<rparr>))"

definition update_files ::
  "((string \<rightharpoonup> 'v fcontent) \<Rightarrow> error + (string \<rightharpoonup> 'v fcontent)) \<Rightarrow> ('v, unit) act" where
  "update_files f =
     (\<lambda>s. case f (files s) of Inl e \<Rightarrow> (Inl e, s) | Inr fs \<Rightarrow> (Inr (), s\<lparr>files := fs\<rparr>))"

text \<open>An attribute that must hold an object of a collaborator's class.\<close>

definition read_ext :: "string \<Rightarrow> ('v, 'v) act" where
  "read_ext name =
     bindm (read_attr name) (\<lambda>v. case v of Ext x \<Rightarrow> ret x | _ \<Rightarrow> raise AttributeError)"

subsection \<open>Built-in operations\<close>

definition lower_char :: "char \<Rightarrow> char" where
  "lower_char c =
     (case map_of (zip ''ABCDEFGHIJKLMNOPQRSTUVWXYZ'' ''abcdefghijklmnopqrstuvwxyz'') c of
        Some l \<Rightarrow> l | None \<Rightarrow> c)"

text \<open>\<open>x.lower()\<close>: only strings have the method.\<close>

definition py_lower :: "'v pyval \<Rightarrow> error + string" where
  "py_lower v = (case v of PyStr x \<Rightarrow> Inr (map lower_char x) | _ \<Rightarrow> Inl AttributeError)"

text \<open>Truncation toward zero.\<close>

definition trunc :: "rat \<Rightarrow> int" where
  "trunc q = (if 0 \<le> q then \<lfloor>q\<rfloor> else \<lceil>q\<rceil>)"

text \<open>
  \<open>int(x)\<close>: a float is truncated toward zero, infinity raises OverflowError, NaN raises
  ValueError; a string is parsed; None, lists and foreign objects raise TypeError.
\<close>

definition py_int :: "'v env \<Rightarrow> 'v pyval \<Rightarrow> error + int" where
  "py_int env v =
     (case v of
        PyInt n \<Rightarrow> Inr n
      | PyBool b \<Rightarrow> Inr (if b then 1 else 0)
      | PyFloat (Fin q) \<Rightarrow> Inr (trunc q)
      | PyFloat NaN \<Rightarrow> Inl (ValueError ''cannot convert float NaN to integer'')
      | PyFloat _ \<Rightarrow> Inl OverflowError
      | PyStr x \<Rightarrow> (case int_of_str env x of
                     None \<Rightarrow> Inl (ValueError ''invalid literal for int()'')
                   | Some n \<Rightarrow> Inr n)
      | _ \<Rightarrow> Inl TypeError)"

text \<open>\<open>np.isfinite\<close> of a Python int.\<close>

definition np_isfinite :: "int \<Rightarrow> bool" where
  "np_isfinite n = True"

text \<open>The number a value stands for in a comparison or product with a float.\<close>

definition py_num :: "'v pyval \<Rightarrow> error + pyfloat" where
  "py_num v =
     (case v of
        PyInt n \<Rightarrow> Inr (Fin (of_int n))
      | PyBool b \<Rightarrow> Inr (Fin (if b then 1 else 0))
      | PyFloat f \<Rightarrow> Inr f
      | _ \<Rightarrow> Inl TypeError)"

text \<open>\<open>a <= b\<close> and \<open>a >= b\<close> on floats: every comparison with NaN is false.\<close>

fun float_le :: "pyfloat \<Rightarrow> pyfloat \<Rightarrow> bool" where
  "float_le NaN _ = False"
| "float_le _ NaN = False"
| "float_le NInf _ = True"
| "float_le _ PInf = True"
| "float_le (Fin a) (Fin b) = (a \<le> b)"
| "float_le _ _ = False"

definition float_ge :: "pyfloat \<Rightarrow> pyfloat \<Rightarrow> bool" where
  "float_ge a b = float_le b a"

text \<open>\<open>n * x\<close> for an int \<open>n\<close> and a float \<open>x\<close>.\<close>

fun int_times_float :: "int \<Rightarrow> pyfloat \<Rightarrow> pyfloat" where
  "int_times_float n (Fin q) = Fin (of_int n * q)"
| "int_times_float n NaN = NaN"
| "int_times_float n PInf = (if n = 0 then NaN else if 0 < n then PInf else NInf)"
| "int_times_float n NInf = (if n = 0 then NaN else if 0 < n then NInf else PInf)"

text \<open>
  \<open>np.int64(np.floor(x))\<close>; what the cast of a non-finite value gives, a number or an
  exception, depends on the platform and the library version.
\<close>

definition np_int64_floor :: "'v env \<Rightarrow> pyfloat \<Rightarrow> error + int" where
  "np_int64_floor env x = (case x of Fin q \<Rightarrow> Inr \<lfloor>q\<rfloor> | _ \<Rightarrow> int64_invalid env)"

text \<open>\<open>os.path.join(a, b)\<close> of two strings; anything else raises TypeError.\<close>

definition pjoin :: "'v pyval \<Rightarrow> string \<Rightarrow> error + string" where
  "pjoin a b =
     (case a of
        PyStr d \<Rightarrow>
          Inr (if b \<noteq> [] \<and> hd b = CHR ''/'' then b
               else if d = [] \<or> last d = CHR ''/'' then d @ b
               else d @ ''/'' @ b)
      | _ \<Rightarrow> Inl TypeError)"

text \<open>\<open>a < b\<close> on floats.\<close>

definition float_lt :: "pyfloat \<Rightarrow> pyfloat \<Rightarrow> bool" where
  "float_lt a b = (float_le a b \<and> a \<noteq> b)"

text \<open>An int used as a slice bound or in \<open>range\<close>.\<close>

definition py_index :: "'v pyval \<Rightarrow> error + int" where
  "py_index v =
     (case v of PyInt n \<Rightarrow> Inr n | PyBool b \<Rightarrow> Inr (if b then 1 else 0) | _ \<Rightarrow> Inl TypeError)"

text \<open>The truth value of a value in an \<open>if\<close>.\<close>

definition py_truthy :: "'v pyval \<Rightarrow> bool" where
  "py_truthy v =
     (case v of
        PyNone \<Rightarrow> False
      | PyBool b \<Rightarrow> b
      | PyInt n \<Rightarrow> n \<noteq> 0
      | PyFloat f \<Rightarrow> f \<noteq> Fin 0
      | PyStr x \<Rightarrow> x \<noteq> []
      | PyList xs \<Rightarrow> xs \<noteq> []
      | Ext _ \<Rightarrow> True)"

text \<open>\<open>xs[:k]\<close>: a negative bound counts from the end.\<close>

definition py_slice_to :: "'a list \<Rightarrow> int \<Rightarrow> 'a list" where
  "py_slice_to xs k = (if 0 \<le> k then take (nat k) xs else take (length xs - nat (- k)) xs)"

text \<open>\<open>getattr(self, var, None)\<close>\<close>

definition getattr_none :: "(string \<rightharpoonup> 'v pyval) \<Rightarrow> string \<Rightarrow> 'v pyval" where
  "getattr_none obj var = (case obj var of None \<Rightarrow> PyNone | Some v \<Rightarrow> v)"

text \<open>A \<open>for\<close> loop whose body may raise.\<close>

fun for_each :: "('a \<Rightarrow> ('v, unit) act) \<Rightarrow> 'a list \<Rightarrow> ('v, unit) act" where
  "for_each f [] = ret ()"
| "for_each f (x # xs) = thenm (f x) (for_each f xs)"

text \<open>
  \<open>random.shuffle(x)\<close>: for \<open>i\<close> from \<open>len(x) - 1\<close> down to 1, swap \<open>x[i]\<close> with \<open>x[j]\<close>
  for a random \<open>j\<close> below \<open>i + 1\<close>. The first argument after the environment counts the
  random numbers drawn so far.
\<close>

fun shuffle_from :: "'v env \<Rightarrow> nat \<Rightarrow> nat \<Rightarrow> 'a list \<Rightarrow> 'a list \<times> nat" where
  "shuffle_from env r 0 xs = (xs, r)"
| "shuffle_from env r (Suc i) xs =
     (let j = randbelow env r (Suc (Suc i)) mod Suc (Suc i)
      in shuffle_from env (Suc r) i (xs[Suc i := xs ! j, j := xs ! Suc i]))"

definition shuffle :: "'v env \<Rightarrow> nat \<Rightarrow> 'a list \<Rightarrow> 'a list \<times> nat" where
  "shuffle env r xs = shuffle_from env r (length xs - 1) xs"

section \<open>The workflow\<close>

text \<open>The arguments of the constructor.\<close>

record 'v args =
  arg_datasets :: "'v pyval"
  arg_pred_model :: "'v pyval"
  arg_impute_strategy :: "'v pyval"
  arg_covariates :: "'v pyval"
  arg_deconfounder :: "'v pyval"
  arg_dim_red_method :: "'v pyval"
  arg_reduced_dim :: "'v pyval"
  arg_train_perc :: "'v pyval"
  arg_num_rep_cv :: "'v pyval"
  arg_scoring :: "'v pyval"
  arg_grid_search_level :: "'v pyval"
  arg_out_dir :: "'v pyval"
  arg_num_procs :: "'v pyval"
  arg_user_options :: "'v pyval"
  arg_checkpointing :: "'v pyval"
  arg_workflow_type :: "'v pyval"

text \<open>\<open>BaseWorkflow.__init__\<close>\<close>

definition init :: "cfg \<Rightarrow> 'v env \<Rightarrow> 'v args \<Rightarrow> ('v, unit) act" where
  "init c env a =
     thenm (for_each (\<lambda>(name, v). set_attr name v)
       [(''datasets'', arg_datasets a),
        (''pred_model'', arg_pred_model a),
        (''impute_strategy'', arg_impute_strategy a),
        (''covariates'', arg_covariates a),
        (''deconfounder'', arg_deconfounder a),
        (''dim_red_method'', arg_dim_red_method a),
        (''reduced_dim'', arg_reduced_dim a),
        (''train_perc'', arg_train_perc a),
        (''num_rep_cv'', arg_num_rep_cv a),
        (''_scoring'', arg_scoring a),
        (''grid_search_level'', arg_grid_search_level a),
        (''out_dir'', arg_out_dir a),
        (''num_procs'', arg_num_procs a),
        (''user_options'', arg_user_options a),
        (''_checkpointing'', arg_checkpointing a)])
    (bindm (lift (py_lower (arg_workflow_type a))) (\<lambda>workflow_type.
       if workflow_type \<notin> set (workflow_types c)
       then raise (ValueError ''Invalid workflow.'')
       else
         thenm (set_attr ''_workflow_type'' (PyStr workflow_type))
        (bindm (read_ext ''datasets'') (\<lambda>d.
         thenm (emit EvModalityIds)
        (bindm (lift (make_results env (workflow_type = ''classify'')
                        (arg_scoring a) (arg_num_rep_cv a) (modality_ids env d))) (\<lambda>r.
         set_attr ''results'' (Ext r)))))))"

text \<open>\<open>BaseWorkflow._summarize_expt\<close> (what is printed is left out)\<close>

definition summarize_expt :: "'v env \<Rightarrow> ('v, unit) act" where
  "summarize_expt env =
     bindm (read_attr ''_workflow_type'') (\<lambda>wt.
       if wt = PyStr ''classify''
       then
         bindm (read_ext ''datasets'') (\<lambda>d.
         thenm (emit EvTargetSizes)
        (thenm (set_attr ''_target_sizes'' (target_sizes env d))
        (bindm (lift (chance_accuracy env (target_sizes env d))) (\<lambda>ca.
         set_attr ''_chance_accuracy'' ca))))
       else ret ())"

text \<open>\<open>BaseWorkflow._prepare\<close>\<close>

definition prepare :: "cfg \<Rightarrow> 'v env \<Rightarrow> ('v, unit) act" where
  "prepare c env =
     bindm (read_attr ''num_rep_cv'') (\<lambda>r.
     bindm (lift (py_int env r)) (\<lambda>num_rep_cv.
     thenm (set_attr ''num_rep_cv'' (PyInt num_rep_cv))
    (if \<not> np_isfinite num_rep_cv
     then raise (ValueError ''Infinite number of repetitions is not recommended!'')
     else if num_rep_cv \<le> 1
     then raise (ValueError ''More than 1 repetition is necessary!'')
     else
       bindm (read_attr ''train_perc'') (\<lambda>tp.
       bindm (lift (py_num tp)) (\<lambda>train_perc.
       if float_le train_perc (Fin 0) \<or> float_ge train_perc (Fin 1)
       then raise (ValueError ''Train perc > 0.0 and < 1.0'')
       else
         bindm (read_attr ''num_procs'') (\<lambda>np.
         bindm (lift (check_num_procs env np)) (\<lambda>num_procs.
         thenm (set_attr ''num_procs'' (PyInt num_procs))
        (bindm (read_attr ''grid_search_level'') (\<lambda>g.
         bindm (lift (py_lower g)) (\<lambda>level.
         if level \<notin> set (GRIDSEARCH_LEVELS c)
         then raise (ValueError ''Unrecognized level of grid search.'')
         else
           bindm (read_ext ''datasets'') (\<lambda>d.
           thenm (emit EvSampleIds)
          (let id_list = samplet_ids env d;
               num_samples = int (length id_list)
           in
           thenm (set_attr ''_id_list'' (PyList id_list))
          (thenm (set_attr ''_num_samples'' (PyInt num_samples))
          (bindm (lift (np_int64_floor env (int_times_float num_samples train_perc)))
             (\<lambda>train_set_size.
           thenm (set_attr ''_train_set_size'' (PyInt train_set_size))
          (thenm (set_attr ''_train_set_size''
                    (PyInt (max 1 (min num_samples train_set_size))))
          (bindm (read_attr ''out_dir'') (\<lambda>out_dir.
           bindm (lift (pjoin out_dir (results_file_name c))) (\<lambda>path.
           thenm (set_attr ''_out_results_path'' (PyStr path))
          (summarize_expt env))))))))))))))))))))"

text \<open>\<open>BaseWorkflow._preprocess_data\<close>, with the default \<open>preproc_name\<close>\<close>

definition preprocess_data :: "cfg \<Rightarrow> 'v env \<Rightarrow> 'v \<Rightarrow> 'v \<Rightarrow> error + 'v \<times> 'v" where
  "preprocess_data c env train_data test_data =
     (case preproc_fit env (default_preprocessing_method c) train_data of
        Inl e \<Rightarrow> Inl e
      | Inr preproc \<Rightarrow>
          (case preproc_transform env preproc train_data of
             Inl e \<Rightarrow> Inl e
           | Inr tr \<Rightarrow>
               (case preproc_transform env preproc test_data of
                  Inl e \<Rightarrow> Inl e
                | Inr te \<Rightarrow> Inr (tr, te))))"

text \<open>\<open>BaseWorkflow._get_covariate_data\<close>\<close>

definition get_covariate_data ::
  "'v env \<Rightarrow> 'v pyval list \<Rightarrow> 'v pyval list \<Rightarrow> ('v, 'v \<times> 'v) act" where
  "get_covariate_data env train_set test_set =
     bindm (read_ext ''datasets'') (\<lambda>d.
     bindm (read_attr ''covariates'') (\<lambda>covariates.
     thenm (emit EvCovariates)
    (bindm (lift (get_common_attr env d covariates train_set)) (\<lambda>(train_covar, train_dtypes).
     bindm (lift (get_common_attr env d covariates test_set)) (\<lambda>(test_covar, test_dtypes).
     bindm (lift (encode env train_covar train_dtypes)) (\<lambda>(train_enc, train_encoders).
     bindm (lift (encode env test_covar test_dtypes)) (\<lambda>(test_enc, test_encoders).
     bindm (lift (column_stack env train_enc)) (\<lambda>tr.
     bindm (lift (column_stack env test_enc)) (\<lambda>te.
     ret (tr, te))))))))))"

text \<open>\<open>BaseWorkflow._deconfound_data\<close>\<close>

definition deconfound_data :: "'v env \<Rightarrow> 'v \<Rightarrow> 'v \<Rightarrow> 'v \<Rightarrow> 'v \<Rightarrow> ('v, 'v \<times> 'v) act" where
  "deconfound_data env train_data train_covar test_data test_covar =
     bindm (read_attr ''deconfounder'') (\<lambda>deconfounder.
     bindm (read_attr ''grid_search_level'') (\<lambda>level.
     bindm (lift (deconf_fit env deconfounder level train_data train_covar)) (\<lambda>deconf.
     bindm (lift (deconf_transform env deconf train_data train_covar)) (\<lambda>tr.
     bindm (lift (deconf_transform env deconf test_data test_covar)) (\<lambda>te.
     ret (tr, te))))))"

text \<open>
  \<open>BaseWorkflow._optimize_pipeline_on_train_set\<close>; \<open>_optimize_pipeline\<close> is the grid
  search of the collaborators. A \<open>pred_model\<close> that is not a string is no key of
  \<open>cfg.importance_attr\<close>.
\<close>

definition optimize_pipeline_on_train_set ::
  "cfg \<Rightarrow> 'v env \<Rightarrow> 'v \<Rightarrow> 'v \<Rightarrow> ('v, pipeline \<times> 'v \<times> pyfloat list option) act" where
  "optimize_pipeline_on_train_set c env train_data train_targets =
     bindm (read_attr ''reduced_dim'') (\<lambda>reduced_dim0.
     bindm (read_attr ''_train_set_size'') (\<lambda>tss.
     bindm (lift (py_index tss)) (\<lambda>train_set_size.
     bindm (lift (compute_reduced_dimensionality env reduced_dim0 train_set_size
                    (shape1 env train_data))) (\<lambda>reduced_dim.
     bindm (read_attr ''pred_model'') (\<lambda>pred_model.
     bindm (read_attr ''dim_red_method'') (\<lambda>dim_red_method.
     bindm (read_attr ''grid_search_level'') (\<lambda>level.
     bindm (lift (make_pipeline env pred_model dim_red_method reduced_dim train_set_size
                    level)) (\<lambda>(pipeline, param_grid).
     bindm (read_attr ''train_perc'') (\<lambda>train_perc.
     bindm (lift (grid_search_fit env pipeline train_data train_targets param_grid
                    train_perc)) (\<lambda>(best_pipeline, best_params).
     bindm (lift (case pred_model of
                    PyStr est_name \<Rightarrow>
                      get_feature_importance (importance_attr c) est_name best_pipeline
                        (shape1 env train_data) NaN
                  | _ \<Rightarrow>
                      get_feature_importance Map.empty [] best_pipeline
                        (shape1 env train_data) NaN)) (\<lambda>feat_importance.
     ret (best_pipeline, best_params, feat_importance))))))))))))"

text \<open>The body of the loop over the modalities in \<open>_single_run_cv\<close>.\<close>

definition run_modality ::
  "cfg \<Rightarrow> 'v env \<Rightarrow> 'v pyval \<Rightarrow> 'v pyval list \<Rightarrow> 'v pyval list
     \<Rightarrow> string \<times> ('v \<times> 'v) \<times> ('v \<times> 'v) \<Rightarrow> ('v, unit) act" where
  "run_modality c env run_id train_set test_set =
     (\<lambda>(ds_id, (train_data0, train_targets), (test_data0, test_targets)).
     bindm (read_ext ''datasets'') (\<lambda>d.
     bindm (lift (get_attr env d ds_id (missing_data_flag_name c))) (\<lambda>missing.
     bindm (if missing
            then thenm (emit (EvImpute ds_id))
                (bindm (read_attr ''impute_strategy'') (\<lambda>strategy.
                 lift (impute_missing_data env train_data0 train_targets strategy test_data0)))
            else ret (train_data0, test_data0)) (\<lambda>(train_data1, test_data1).
     thenm (emit (EvPreprocess ds_id))
    (bindm (lift (preprocess_data c env train_data1 test_data1)) (\<lambda>(train_data2, test_data2).
     bindm (get_covariate_data env train_set test_set) (\<lambda>(train_covar, test_covar).
     thenm (emit (EvDeconfound ds_id))
    (bindm (deconfound_data env train_data2 train_covar test_data2 test_covar)
       (\<lambda>(train_data, test_data).
     thenm (emit (EvOptimize ds_id train_data))
    (bindm (optimize_pipeline_on_train_set c env train_data train_targets)
       (\<lambda>(best_pipeline, best_params, feat_importance).
     bindm (read_ext ''results'') (\<lambda>res.
     bindm (lift (add_attr env res run_id ds_id ''feat_importance'' feat_importance)) (\<lambda>res1.
     thenm (set_attr ''results'' (Ext res1))
    (thenm (emit (EvEval ds_id))
    (bindm (lift (eval_predictions env res1 best_pipeline test_data test_targets
                    run_id ds_id)) (\<lambda>res2.
     set_attr ''results'' (Ext res2)))))))))))))))))"

text \<open>
  \<open>BaseWorkflow._single_run_cv\<close>, in two parts: the split is drawn, then the modalities
  are processed and the checkpoint is written. The order in which
  \<open>list(set(...) - set(...))\<close> lists the test IDs is the interpreter's; here it is the
  order of the shuffled list.
\<close>

definition process_split ::
  "cfg \<Rightarrow> 'v env \<Rightarrow> 'v pyval \<Rightarrow> 'v pyval list \<Rightarrow> 'v pyval list \<Rightarrow> ('v, unit) act" where
  "process_split c env run_id train_set test_set =
     bindm (read_ext ''datasets'') (\<lambda>d.
     thenm (emit EvGetSubsets)
    (bindm (lift (get_subsets env d train_set test_set)) (\<lambda>subsets.
     thenm (for_each (run_modality c env run_id train_set test_set) subsets)
    (bindm (read_attr ''_checkpointing'') (\<lambda>checkpointing.
     if py_truthy checkpointing
     then
       bindm (read_ext ''results'') (\<lambda>res.
       bindm (read_attr ''out_dir'') (\<lambda>out_dir.
       thenm (emit EvCheckpoint)
      (update_files (results_dump env res out_dir))))
     else ret ())))))"

definition single_run_cv :: "cfg \<Rightarrow> 'v env \<Rightarrow> 'v pyval \<Rightarrow> ('v, unit) act" where
  "single_run_cv c env run_id =
     bindm (read_attr ''_id_list'') (\<lambda>l.
     case l of
       PyList ids \<Rightarrow>
         bindm (draw (\<lambda>r. shuffle env r ids)) (\<lambda>id_list.
         thenm (set_attr ''_id_list'' (PyList id_list))
        (bindm (read_attr ''_train_set_size'') (\<lambda>tss.
         bindm (lift (py_index tss)) (\<lambda>train_set_size.
         let train_set = py_slice_to id_list train_set_size;
             test_set = remdups (filter (\<lambda>x. x \<notin> set train_set) id_list)
         in
         thenm (emit (EvSplit run_id train_set test_set))
        (process_split c env run_id train_set test_set)))))
     | _ \<Rightarrow> raise TypeError)"

text \<open>\<open>BaseWorkflow._run_cv\<close>\<close>

definition run_cv :: "cfg \<Rightarrow> 'v env \<Rightarrow> ('v, unit) act" where
  "run_cv c env =
     bindm (read_attr ''num_procs'') (\<lambda>np.
     bindm (lift (py_num np)) (\<lambda>num_procs.
     if float_lt (Fin 1) num_procs
     then raise (NotImplementedError
                   ''parallel runs not implemented yet!Use num_procs=1 for now'')
     else
       bindm (read_attr ''num_rep_cv'') (\<lambda>r.
       bindm (lift (py_index r)) (\<lambda>num_rep_cv.
       for_each (\<lambda>rep. single_run_cv c env (PyInt (int rep))) [0..<nat num_rep_cv]))))"

text \<open>
  \<open>BaseWorkflow.save\<close>. The dictionary is the list of its items, one per name of
  \<open>results_to_save\<close>. Whatever fails inside the \<open>try\<close> is raised as IOError; when the
  file was opened and pickling failed, what was written so far remains.
\<close>

definition save :: "cfg \<Rightarrow> 'v env \<Rightarrow> ('v, string) act" where
  "save c env =
     (\<lambda>s. let out_dict = map (\<lambda>var. (var, getattr_none (self s) var)) (results_to_save c)
           in case self s ''_out_results_path'' of
                Some (PyStr path) \<Rightarrow>
                  if \<not> can_open_w env path
                  then (Inl (IOError ''Error saving the results to disk!''), s)
                  else if \<not> picklable env out_dict
                  then (Inl (IOError ''Error saving the results to disk!''),
                        s\<lparr>files := (files s)(path \<mapsto> Other (partial_dump env out_dict))\<rparr>)
                  else (Inr path,
                        s\<lparr>files := (files s)(path \<mapsto> Pickle out_dict),
                          trace := trace s @ [EvSave]\<rparr>)
              | Some _ \<Rightarrow> (Inl (IOError ''Error saving the results to disk!''), s)
              | None \<Rightarrow> (Inl AttributeError, s))"

text \<open>
  \<open>BaseWorkflow.load\<close>. A missing or unreadable file raises IOError; a name of
  \<open>results_to_save\<close> that the loaded dictionary lacks raises KeyError, after the names
  before it were set.
\<close>

definition load :: "cfg \<Rightarrow> 'v env \<Rightarrow> ('v, unit) act" where
  "load c env =
     (\<lambda>s. case self s ''_out_results_path'' of
             Some (PyStr path) \<Rightarrow>
               (case files s path of
                  Some (Pickle loaded_results) \<Rightarrow>
                    thenm (emit EvLoad)
                      (for_each (\<lambda>var. case map_of loaded_results var of
                                         None \<Rightarrow> raise KeyError
                                       | Some v \<Rightarrow> set_attr var v)
                         (results_to_save c)) s
                | _ \<Rightarrow> (Inl (IOError ''Error load the results''), s))
           | Some _ \<Rightarrow> (Inl (IOError ''Error load the results''), s)
           | None \<Rightarrow> (Inl AttributeError, s))"

text \<open>\<open>pexists(path) and getsize(path) > 0\<close>\<close>

definition nonempty_file :: "(string \<rightharpoonup> 'v fcontent) \<Rightarrow> string \<Rightarrow> bool" where
  "nonempty_file fs path =
     (case fs path of None \<Rightarrow> False | Some (Pickle _) \<Rightarrow> True | Some (Other n) \<Rightarrow> 0 < n)"

text \<open>The end of \<open>run\<close>: the summary and the visualization of the subclass.\<close>

definition finish :: "'v env \<Rightarrow> string \<Rightarrow> ('v, string) act" where
  "finish env path =
     bindm (\<lambda>s. (summarize env (self s), s)) (\<lambda>summary.
     thenm (emit (EvSummarize summary))
    (bindm (\<lambda>s. (visualize env (self s), s)) (\<lambda>_.
     thenm (emit EvVisualize)
    (ret path))))"

text \<open>
  \<open>BaseWorkflow.run\<close>; \<open>summarize\<close> and \<open>visualize\<close> are the subclass's. The summary is
  recorded in the trace.
\<close>

definition run :: "cfg \<Rightarrow> 'v env \<Rightarrow> ('v, string) act" where
  "run c env =
     thenm (prepare c env)
    (bindm (read_attr ''_out_results_path'') (\<lambda>p.
     case p of
       PyStr path \<Rightarrow>
         thenm (\<lambda>s. if nonempty_file (files s) path
                     then load c env s
                     else thenm (run_cv c env) (bindm (save c env) (\<lambda>_. ret ())) s)
        (finish env path)
     | _ \<Rightarrow> raise TypeError))"

section \<open>A small experiment\<close>

text \<open>
  Collaborators for ten samples and one modality, used to instantiate the results
  below: arrays are lists of integers, the accumulator lists what was recorded, and the
  deconfounder adds one to every entry.
\<close>

datatype toy = Dataset | Acc "string list" | Arr "int list" | Blank

definition ex_cfg :: cfg where
  "ex_cfg =
     \<lparr>workflow_types = [''classify'', ''regress''],
      GRIDSEARCH_LEVELS = [''none'', ''light'', ''exhaustive''],
      results_file_name = ''results.pkl'',
      results_to_save = [''results'', ''num_rep_cv'', ''_train_set_size''],
      missing_data_flag_name = ''missing'',
      default_preprocessing_method = ''robustscaler'',
      importance_attr = ex_importance_attr\<rparr>"

definition ex_env :: "toy env" where
  "ex_env =
     \<lparr>int_of_str = (\<lambda>_. None),
      int64_invalid = Inr (- 9223372036854775808),
      randbelow = (\<lambda>r n. r),
      can_open_w = (\<lambda>_. True),
      picklable = (\<lambda>_. True),
      partial_dump = (\<lambda>_. 0),
      check_num_procs = (\<lambda>v. case v of PyInt n \<Rightarrow> Inr n | _ \<Rightarrow> Inl TypeError),
      chance_accuracy = (\<lambda>_. Inr (PyFloat (Fin (1 / 2)))),
      make_results = (\<lambda>_ _ _ _. Inr (Acc [])),
      modality_ids = (\<lambda>_. PyList [PyStr ''m1'']),
      samplet_ids = (\<lambda>_. map PyInt [1, 2, 3, 4, 5, 6, 7, 8, 9, 10]),
      target_sizes = (\<lambda>_. PyList [PyInt 5, PyInt 5]),
      get_subsets = (\<lambda>_ _ _. Inr [(''m1'', (Arr [1, 2, 3], Arr [0]), (Arr [4, 5, 6], Arr [1]))]),
      get_attr = (\<lambda>_ _ _. Inr False),
      get_common_attr = (\<lambda>_ _ _. Inr (Blank, Blank)),
      impute_missing_data = (\<lambda>tr _ _ te. Inr (tr, te)),
      preproc_fit = (\<lambda>_ _. Inr Blank),
      preproc_transform = (\<lambda>_ x. Inr x),
      encode = (\<lambda>x y. Inr (x, y)),
      column_stack = (\<lambda>x. Inr x),
      deconf_fit = (\<lambda>_ _ _ _. Inr Blank),
      deconf_transform =
        (\<lambda>_ x _. case x of Arr xs \<Rightarrow> Inr (Arr (map (\<lambda>v. v + 1) xs)) | _ \<Rightarrow> Inr x),
      shape1 = (\<lambda>_. 3),
      compute_reduced_dimensionality = (\<lambda>_ _ _. Inr (PyInt 1)),
      make_pipeline = (\<lambda>_ _ _ _ _. Inr (Blank, Blank)),
      grid_search_fit = (\<lambda>_ _ _ _ _. Inr (ex_pipeline, Blank)),
      add_attr = (\<lambda>res _ ds_id name _.
                    Inr (case res of Acc ks \<Rightarrow> Acc (ks @ [name]) | _ \<Rightarrow> res)),
      eval_predictions = (\<lambda>res _ _ _ _ ds_id.
                    Inr (case res of Acc ks \<Rightarrow> Acc (ks @ [ds_id]) | _ \<Rightarrow> res)),
      results_dump = (\<lambda>_ _ fs. Inr fs),
      summarize = (\<lambda>obj. Inr (getattr_none obj ''results'')),
      visualize = (\<lambda>_. Inr ())\<rparr>"

definition ex_args :: "toy args" where
  "ex_args =
     \<lparr>arg_datasets = Ext Dataset,
      arg_pred_model = PyStr ''svm'',
      arg_impute_strategy = PyStr ''raise'',
      arg_covariates = PyNone,
      arg_deconfounder = PyStr ''residualize'',
      arg_dim_red_method = PyStr ''variancethreshold'',
      arg_reduced_dim = PyStr ''tenth'',
      arg_train_perc = PyFloat (Fin (1 / 2)),
      arg_num_rep_cv = PyInt 2,
      arg_scoring = PyStr ''accuracy'',
      arg_grid_search_level = PyStr ''none'',
      arg_out_dir = PyStr ''out'',
      arg_num_procs = PyInt 1,
      arg_user_options = PyNone,
      arg_checkpointing = PyBool False,
      arg_workflow_type = PyStr ''classify''\<rparr>"

definition empty_sys :: "toy sys" where
  "empty_sys = \<lparr>self = Map.empty, files = Map.empty, trace = [], rng = 0\<rparr>"

text \<open>The state after the constructor ran on the arguments.\<close>

definition constructed :: "cfg \<Rightarrow> 'v env \<Rightarrow> 'v args \<Rightarrow> 'v sys \<Rightarrow> 'v sys" where
  "constructed c env a s = snd (init c env a s)"

section \<open>Notions used to state the properties\<close>

text \<open>
  A configuration that passes validation: the repetition count converts to an integer
  \<open>n > 1\<close>, the train fraction is a finite float \<open>p\<close> strictly between 0 and 1, the
  worker count is accepted as \<open>k\<close>, the grid-search level is recognized, the dataset
  collection \<open>d\<close> and the output directory are set, and for classification the chance
  accuracy can be computed.
\<close>

definition valid_config ::
  "cfg \<Rightarrow> 'v env \<Rightarrow> 'v sys \<Rightarrow> int \<Rightarrow> rat \<Rightarrow> int \<Rightarrow> 'v \<Rightarrow> string \<Rightarrow> bool" where
  "valid_config c env s n p k d out =
     ((\<exists>r. self s ''num_rep_cv'' = Some r \<and> py_int env r = Inr n) \<and> 1 < n
      \<and> self s ''train_perc'' = Some (PyFloat (Fin p)) \<and> 0 < p \<and> p < 1
      \<and> (\<exists>np. self s ''num_procs'' = Some np \<and> check_num_procs env np = Inr k)
      \<and> (\<exists>g level. self s ''grid_search_level'' = Some g \<and> py_lower g = Inr level
            \<and> level \<in> set (GRIDSEARCH_LEVELS c))
      \<and> self s ''datasets'' = Some (Ext d)
      \<and> self s ''out_dir'' = Some (PyStr out)
      \<and> (\<exists>wt. self s ''_workflow_type'' = Some wt
            \<and> (wt = PyStr ''classify''
                 \<and> (\<exists>ca. chance_accuracy env (target_sizes env d) = Inr ca)
                \<or> wt \<noteq> PyStr ''classify'')))"


text \<open>The path that \<open>_prepare\<close> computes for an output directory.\<close>

definition results_path :: "cfg \<Rightarrow> string \<Rightarrow> string" where
  "results_path c out =
     (if results_file_name c \<noteq> [] \<and> hd (results_file_name c) = CHR ''/''
      then results_file_name c
      else if out = [] \<or> last out = CHR ''/'' then out @ results_file_name c
      else out @ ''/'' @ results_file_name c)"

text \<open>The events that draw a split, and the splits of a trace.\<close>

fun is_split :: "'v event \<Rightarrow> bool" where
  "is_split (EvSplit _ _ _) = True"
| "is_split _ = False"

definition splits :: "'v event list \<Rightarrow> 'v event list" where
  "splits t = filter is_split t"

text \<open>
  How a method may change the state: attributes outside \<open>A\<close> keep their values, and the
  trace grows by events that satisfy \<open>E\<close>.
\<close>

definition step_rel :: "string set \<Rightarrow> ('v event \<Rightarrow> bool) \<Rightarrow> 'v sys \<Rightarrow> 'v sys \<Rightarrow> bool" where
  "step_rel A E s s' =
     ((\<forall>k. k \<in> A \<or> self s' k = self s k) \<and> (\<exists>t. trace s' = trace s @ t \<and> list_all E t))"

definition keeps :: "('v sys \<Rightarrow> 'v sys \<Rightarrow> bool) \<Rightarrow> ('v, 'a) act \<Rightarrow> bool" where
  "keeps R f = (\<forall>s. R s (snd (f s)))"

text \<open>A call of a collaborator that returns normally.\<close>

definition ok :: "error + 'a \<Rightarrow> bool" where
  "ok r = (\<not> isl r)"

text \<open>
  No collaborator raises while the repetitions run: the dataset collection hands out
  every subset and attribute, every transform fits and applies, every grid search returns
  a pipeline whose feature importance can be extracted for the estimator \<open>est\<close>, and
  the accumulator accepts every record.
\<close>

definition collaborators_succeed :: "cfg \<Rightarrow> 'v env \<Rightarrow> string \<Rightarrow> bool" where
  "collaborators_succeed c env est =
     ((\<forall>d tr te. ok (get_subsets env d tr te))
      \<and> (\<forall>d ds flag. ok (get_attr env d ds flag))
      \<and> (\<forall>x y st z. ok (impute_missing_data env x y st z))
      \<and> (\<forall>name x. ok (preproc_fit env name x))
      \<and> (\<forall>f x. ok (preproc_transform env f x))
      \<and> (\<forall>d cv ids. ok (get_common_attr env d cv ids))
      \<and> (\<forall>x y. ok (encode env x y))
      \<and> (\<forall>x. ok (column_stack env x))
      \<and> (\<forall>m l x y. ok (deconf_fit env m l x y))
      \<and> (\<forall>f x y. ok (deconf_transform env f x y))
      \<and> (\<forall>rd k n. ok (compute_reduced_dimensionality env rd k n))
      \<and> (\<forall>pm dm rd k l. ok (make_pipeline env pm dm rd k l))
      \<and> (\<forall>pl x y g tp. ok (grid_search_fit env pl x y g tp))
      \<and> (\<forall>pl x y g tp. ok (get_feature_importance (importance_attr c) est
             (fst (projr (grid_search_fit env pl x y g tp))) (shape1 env x) NaN))
      \<and> (\<forall>res rid ds name fi. ok (add_attr env res rid ds name fi))
      \<and> (\<forall>res pl x y rid ds. ok (eval_predictions env res pl x y rid ds))
      \<and> (\<forall>res out fs. ok (results_dump env res out fs)))"

text \<open>
  The attributes that the repetitions read are set: the estimator is named \<open>est\<close>, the
  number of workers is \<open>k\<close>, and the accumulator is in place.
\<close>

definition complete_config :: "'v sys \<Rightarrow> string \<Rightarrow> bool" where
  "complete_config s est =
     (self s ''pred_model'' = Some (PyStr est)
      \<and> list_all (\<lambda>name. self s name \<noteq> None)
           [''impute_strategy'', ''covariates'', ''deconfounder'', ''dim_red_method'',
            ''reduced_dim'', ''_checkpointing'']
      \<and> (\<exists>res. self s ''results'' = Some (Ext res)))"

text \<open>
  The state in which a repetition can run: the attributes that \<open>_single_run_cv\<close> reads
  are set, with the dataset collection \<open>d\<close>, the estimator name \<open>est\<close> and the train-set
  size \<open>k\<close>.
\<close>

definition ready :: "'v sys \<Rightarrow> 'v \<Rightarrow> string \<Rightarrow> int \<Rightarrow> bool" where
  "ready s d est k =
     (self s ''datasets'' = Some (Ext d)
      \<and> self s ''pred_model'' = Some (PyStr est)
      \<and> self s ''_train_set_size'' = Some (PyInt k)
      \<and> list_all (\<lambda>name. self s name \<noteq> None)
           [''impute_strategy'', ''covariates'', ''deconfounder'', ''dim_red_method'',
            ''reduced_dim'', ''grid_search_level'', ''train_perc'', ''_checkpointing'',
            ''out_dir'']
      \<and> (\<exists>res. self s ''results'' = Some (Ext res)))"

text \<open>
  A split event whose train and test sets partition \<open>U\<close>, with \<open>n\<close> training samples; and
  the repetition index of a split event.
\<close>

fun split_ok :: "'v pyval set \<Rightarrow> nat \<Rightarrow> 'v event \<Rightarrow> bool" where
  "split_ok U n (EvSplit _ train_set test_set) =
     (set train_set \<inter> set test_set = {} \<and> set train_set \<union> set test_set = U
      \<and> length train_set = n)"
| "split_ok U n _ = True"

fun split_id :: "'v event \<Rightarrow> 'v pyval" where
  "split_id (EvSplit run_id _ _) = run_id"
| "split_id _ = PyNone"

text \<open>The trace grows by events that satisfy \<open>E\<close>.\<close>

definition grows :: "('v event \<Rightarrow> bool) \<Rightarrow> 'v sys \<Rightarrow> 'v sys \<Rightarrow> bool" where
  "grows E s s' = (\<exists>t. trace s' = trace s @ t \<and> list_all E t)"


section \<open>Properties of feature-importance extraction\<close>






section \<open>How the methods change the state\<close>

lemmas act_defs = ret_def raise_def bindm_def thenm_def lift_def emit_def read_attr_def
  set_attr_def read_ext_def draw_def update_files_def

lemma step_rel_refl: "step_rel A E s s"
  by (simp add: step_rel_def)

lemma step_rel_trans: "step_rel A E s t \<Longrightarrow> step_rel A E t u \<Longrightarrow> step_rel A E s u"
  unfolding step_rel_def by (metis append.assoc list_all_append)

lemma keeps_ret: "keeps (step_rel A E) (ret x)"
  by (simp add: keeps_def ret_def step_rel_refl)

lemma keeps_raise: "keeps (step_rel A E) (raise e)"
  by (simp add: keeps_def raise_def step_rel_refl)

lemma keeps_lift: "keeps (step_rel A E) (lift r)"
  by (simp add: keeps_def lift_def step_rel_refl)

lemma keeps_read_attr: "keeps (step_rel A E) (read_attr name)"
  by (simp add: keeps_def read_attr_def step_rel_refl)

lemma keeps_emit: "E ev \<Longrightarrow> keeps (step_rel A E) (emit ev)"
  by (simp add: keeps_def emit_def step_rel_def)

lemma keeps_set_attr: "name \<in> A \<Longrightarrow> keeps (step_rel A E) (set_attr name v)"
  by (simp add: keeps_def set_attr_def step_rel_def)

lemma keeps_bindm:
  assumes "keeps (step_rel A E) f" and "\<And>x. keeps (step_rel A E) (g x)"
  shows "keeps (step_rel A E) (bindm f g)"
  unfolding keeps_def
proof
  fix s
  show "step_rel A E s (snd (bindm f g s))"
  proof (cases "f s")
    case (Pair r s')
    with assms(1) have a: "step_rel A E s s'" by (metis keeps_def snd_conv)
    show ?thesis
    proof (cases r)
      case (Inl e)
      with Pair a show ?thesis by (simp add: bindm_def)
    next
      case (Inr x)
      from assms(2)[of x] have "step_rel A E s' (snd (g x s'))" by (simp add: keeps_def)
      with a Inr Pair show ?thesis by (auto simp: bindm_def intro: step_rel_trans)
    qed
  qed
qed

lemma keeps_thenm:
  "keeps (step_rel A E) f \<Longrightarrow> keeps (step_rel A E) g \<Longrightarrow> keeps (step_rel A E) (thenm f g)"
  by (simp add: thenm_def keeps_bindm)

lemma keeps_read_ext: "keeps (step_rel A E) (read_ext name)"
  unfolding read_ext_def
  by (intro keeps_bindm keeps_read_attr) (auto split: pyval.splits intro: keeps_ret keeps_raise)

lemma keeps_draw: "keeps (step_rel A E) (draw f)"
  by (simp add: keeps_def draw_def step_rel_def)

lemma keeps_update_files: "keeps (step_rel A E) (update_files f)"
  by (auto simp: keeps_def update_files_def step_rel_def split: sum.splits)

lemma keeps_for_each:
  "(\<And>x. keeps (step_rel A E) (f x)) \<Longrightarrow> keeps (step_rel A E) (for_each f xs)"
  by (induction xs) (simp_all add: keeps_ret keeps_thenm)

lemma keeps_if:
  "keeps R f \<Longrightarrow> keeps R g \<Longrightarrow> keeps R (if b then f else g)"
  by simp

lemma keeps_case_prod:
  "(\<And>a b. keeps R (f a b)) \<Longrightarrow> keeps R (case_prod f p)"
  by (cases p) simp

lemma keeps_case_prod2:
  "(\<And>a b. keeps R (f a b q)) \<Longrightarrow> keeps R (case_prod f p q)"
  by (cases p) simp

lemmas keeps_intros = keeps_case_prod2 keeps_ret keeps_raise keeps_lift keeps_read_attr keeps_read_ext
  keeps_bindm keeps_thenm keeps_for_each keeps_draw keeps_update_files keeps_if keeps_case_prod keeps_emit keeps_set_attr

lemma keeps_get_covariate_data:
  "\<not> E' EvCovariates \<Longrightarrow> keeps (step_rel A (\<lambda>e. \<not> E' e)) (get_covariate_data env train_set test_set)"
  unfolding get_covariate_data_def by (intro keeps_intros) simp_all

lemma keeps_deconfound_data:
  "keeps (step_rel A E) (deconfound_data env a b c' d)"
  unfolding deconfound_data_def by (intro keeps_intros)

lemma keeps_optimize:
  "keeps (step_rel A E) (optimize_pipeline_on_train_set c env a b)"
  unfolding optimize_pipeline_on_train_set_def by (intro keeps_intros)

lemma keeps_run_modality:
  "keeps (step_rel {''results''} (\<lambda>e. \<not> is_split e)) (run_modality c env run_id train_set test_set m)"
  unfolding run_modality_def
  by (intro keeps_intros keeps_get_covariate_data keeps_deconfound_data keeps_optimize) simp_all


lemma keeps_process_split:
  "keeps (step_rel {''results''} (\<lambda>e. \<not> is_split e))
     (process_split c env run_id train_set test_set)"
  unfolding process_split_def
  by (intro keeps_intros keeps_run_modality) simp_all

section \<open>Validation\<close>

lemma prepare_valid:
  assumes "valid_config c env s n p k d out"
  shows "\<exists>s'. prepare c env s = (Inr (), s')
     \<and> self s' ''num_rep_cv'' = Some (PyInt n)
     \<and> self s' ''num_procs'' = Some (PyInt k)
     \<and> self s' ''_id_list'' = Some (PyList (samplet_ids env d))
     \<and> self s' ''_train_set_size'' = Some (PyInt (max 1 (min (int (length (samplet_ids env d)))
                 \<lfloor>of_int (int (length (samplet_ids env d))) * p\<rfloor>)))
     \<and> self s' ''_out_results_path'' = Some (PyStr (results_path c out))
     \<and> self s' ''datasets'' = Some (Ext d)
     \<and> files s' = files s \<and> rng s' = rng s
     \<and> (\<forall>key. key \<in> {''num_rep_cv'', ''num_procs'', ''_id_list'', ''_num_samples'',
                       ''_train_set_size'', ''_out_results_path'', ''_target_sizes'',
                       ''_chance_accuracy''}
              \<or> self s' key = self s key)
     \<and> trace s' = trace s @ EvSampleIds #
           (if self s ''_workflow_type'' = Some (PyStr ''classify'') then [EvTargetSizes] else [])"
proof -
  from assms obtain r np g level wt where
    h: "self s ''num_rep_cv'' = Some r" "py_int env r = Inr n" "1 < n"
       "self s ''train_perc'' = Some (PyFloat (Fin p))" "0 < p" "p < 1"
       "self s ''num_procs'' = Some np" "check_num_procs env np = Inr k"
       "self s ''grid_search_level'' = Some g" "py_lower g = Inr level"
       "level \<in> set (GRIDSEARCH_LEVELS c)"
       "self s ''datasets'' = Some (Ext d)" "self s ''out_dir'' = Some (PyStr out)"
       "self s ''_workflow_type'' = Some wt"
       "wt \<noteq> PyStr ''classify'' \<or> (\<exists>ca. chance_accuracy env (target_sizes env d) = Inr ca)"
    unfolding valid_config_def by blast
  show ?thesis
  proof (cases "wt = PyStr ''classify''")
    case True
    with h(15) obtain ca where ca: "chance_accuracy env (target_sizes env d) = Inr ca" by blast
    show ?thesis using h(1-14) True ca
      by (simp add: prepare_def summarize_expt_def act_defs np_isfinite_def py_num_def
          float_ge_def np_int64_floor_def pjoin_def results_path_def Let_def)
  next
    case False
    show ?thesis using h(1-14) False
      by (simp add: prepare_def summarize_expt_def act_defs np_isfinite_def py_num_def
          float_ge_def np_int64_floor_def pjoin_def results_path_def Let_def)
  qed
qed


section \<open>Repetitions whose collaborators succeed\<close>

lemma ok_bind [simp]: "ok r \<Longrightarrow> bindm (lift r) g s = g (projr r) s"
  by (cases r) (simp_all add: ok_def bindm_def lift_def)

lemma read_attr_bind: "self s name = Some v \<Longrightarrow> bindm (read_attr name) g s = g v s"
  by (simp add: bindm_def read_attr_def)

lemma read_ext_bind: "self s name = Some (Ext x) \<Longrightarrow> bindm (read_ext name) g s = g x s"
  by (simp add: bindm_def read_attr_def read_ext_def ret_def)

lemma emit_then: "thenm (emit ev) g s = g (s\<lparr>trace := trace s @ [ev]\<rparr>)"
  by (simp add: thenm_def bindm_def emit_def)

lemma set_attr_then: "thenm (set_attr name v) g s = g (s\<lparr>self := (self s)(name \<mapsto> v)\<rparr>)"
  by (simp add: thenm_def bindm_def set_attr_def)

lemma bindm_assoc: "bindm (bindm f g) h = bindm f (\<lambda>x. bindm (g x) h)"
  by (auto simp: bindm_def fun_eq_iff split: prod.splits sum.splits)

lemma bindm_thenm: "bindm (thenm f g) h = thenm f (bindm g h)"
  by (simp add: thenm_def bindm_assoc)

lemma bindm_ret: "bindm (ret x) g = g x"
  by (simp add: bindm_def ret_def)

lemma thenm_ret: "thenm (ret x) g = g"
  by (simp add: thenm_def bindm_ret)

lemma bindm_lift_Inr: "bindm (lift (Inr x)) g = g x"
  by (simp add: bindm_def lift_def)

lemma bindm_lift_Inl: "bindm (lift (Inl e)) g = raise e"
  by (simp add: bindm_def lift_def raise_def)

lemmas step_simps = bindm_lift_Inr bindm_lift_Inl bindm_assoc bindm_thenm bindm_ret thenm_ret read_attr_bind read_ext_bind
  emit_then set_attr_then case_prod_beta

lemma preprocess_data_ok:
  "collaborators_succeed c env est \<Longrightarrow> ok (preprocess_data c env x y)"
  by (auto simp: collaborators_succeed_def preprocess_data_def ok_def split: sum.splits)
     (metis sum.disc(1))+


lemma run_modality_ok:
  assumes cs: "collaborators_succeed c env est" and rd: "ready s d est k"
  shows "\<exists>s'. run_modality c env rid tr te m s = (Inr (), s')
         \<and> (\<exists>res. self s' = (self s)(''results'' \<mapsto> Ext res))
         \<and> files s' = files s \<and> rng s' = rng s"
proof -
  from rd obtain v1 v2 v3 v4 v5 v6 v7 res where
    a: "self s ''datasets'' = Some (Ext d)" "self s ''pred_model'' = Some (PyStr est)"
       "self s ''_train_set_size'' = Some (PyInt k)"
       "self s ''impute_strategy'' = Some v1" "self s ''covariates'' = Some v2"
       "self s ''deconfounder'' = Some v3" "self s ''dim_red_method'' = Some v4"
       "self s ''reduced_dim'' = Some v5" "self s ''grid_search_level'' = Some v6"
       "self s ''train_perc'' = Some v7" "self s ''results'' = Some (Ext res)"
    by (auto simp: ready_def)
  note p = preprocess_data_ok[OF cs]
  from cs have c:
    "\<And>d ds flag. ok (get_attr env d ds flag)"
    "\<And>x y st z. ok (impute_missing_data env x y st z)"
    "\<And>d cv ids. ok (get_common_attr env d cv ids)"
    "\<And>x y. ok (encode env x y)"
    "\<And>x. ok (column_stack env x)"
    "\<And>m l x y. ok (deconf_fit env m l x y)"
    "\<And>f x y. ok (deconf_transform env f x y)"
    "\<And>rd k n. ok (compute_reduced_dimensionality env rd k n)"
    "\<And>pm dm rd k l. ok (make_pipeline env pm dm rd k l)"
    "\<And>pl x y g tp. ok (grid_search_fit env pl x y g tp)"
    "\<And>pl x y g tp. ok (get_feature_importance (importance_attr c) est
             (fst (projr (grid_search_fit env pl x y g tp))) (shape1 env x) NaN)"
    "\<And>res rid ds name fi. ok (add_attr env res rid ds name fi)"
    "\<And>res pl x y rid ds. ok (eval_predictions env res pl x y rid ds)"
    by (simp_all add: collaborators_succeed_def)
  obtain ds_id a1 a2 a3 a4 where m: "m = (ds_id, (a1, a2), (a3, a4))" by (metis prod.exhaust)
  show ?thesis
    unfolding run_modality_def get_covariate_data_def deconfound_data_def
      optimize_pipeline_on_train_set_def m
    using a c p
    by (simp add: step_simps py_index_def) (auto simp: set_attr_def)
qed


section \<open>Drawing a split\<close>

lemma shuffle_from_mset:
  "i = 0 \<or> i < length xs \<Longrightarrow> mset (fst (shuffle_from env r i xs)) = mset xs"
proof (induction i arbitrary: r xs)
  case 0
  then show ?case by simp
next
  case (Suc i)
  then have l: "Suc i < length xs" by simp
  let ?j = "randbelow env r (Suc (Suc i)) mod Suc (Suc i)"
  have j: "?j < length xs" using l by (meson less_trans_Suc mod_less_divisor not_less_eq zero_less_Suc less_Suc_eq_le order.strict_trans1)
  have "mset (xs[Suc i := xs ! ?j, ?j := xs ! Suc i]) = mset xs"
    using mset_swap[OF j l] by simp
  moreover have "i = 0 \<or> i < length (xs[Suc i := xs ! ?j, ?j := xs ! Suc i])" using l by simp
  ultimately show ?case using Suc.IH by (simp add: Let_def)
qed

lemma shuffle_mset: "mset (fst (shuffle env r xs)) = mset xs"
  unfolding shuffle_def by (rule shuffle_from_mset) (cases xs; simp)

lemma shuffle_set: "set (fst (shuffle env r xs)) = set xs"
  using shuffle_mset by (metis set_mset_mset)

lemma shuffle_length: "length (fst (shuffle env r xs)) = length xs"
  using shuffle_mset by (metis size_mset)

lemma py_slice_to_subset: "set (py_slice_to xs k) \<subseteq> set xs"
  by (auto simp: py_slice_to_def dest: in_set_takeD)

lemma py_slice_to_length:
  "length xs = length ys \<Longrightarrow> length (py_slice_to xs k) = length (py_slice_to ys k)"
  by (simp add: py_slice_to_def)

lemma drawn_split_ok:
  assumes "mset ids' = mset ids"
  shows "split_ok (set ids) (length (py_slice_to ids k))
           (EvSplit rid (py_slice_to ids' k)
              (remdups (filter (\<lambda>x. x \<notin> set (py_slice_to ids' k)) ids')))"
proof -
  have s: "set ids' = set ids" using assms by (metis set_mset_mset)
  have l: "length ids' = length ids" using assms by (metis size_mset)
  show ?thesis using py_slice_to_subset[of ids' k] py_slice_to_length[OF l] s by auto
qed


lemma nosplit_ok: "\<not> is_split e \<Longrightarrow> split_ok U n e"
  by (cases e) simp_all

lemma nosplit_all_ok: "list_all (\<lambda>e. \<not> is_split e) t \<Longrightarrow> list_all (split_ok U n) t"
  by (induction t) (simp_all add: nosplit_ok)

lemma ready_results:
  "ready s d est k \<Longrightarrow> self s' = (self s)(''results'' \<mapsto> Ext res) \<Longrightarrow> ready s' d est k"
  by (simp add: ready_def)

lemma modalities_ok:
  assumes cs: "collaborators_succeed c env est"
  shows "ready s d est k \<Longrightarrow>
         \<exists>s'. for_each (run_modality c env rid tr te) subsets s = (Inr (), s')
              \<and> (\<exists>res. self s' = (self s)(''results'' \<mapsto> Ext res))
              \<and> files s' = files s \<and> rng s' = rng s"
proof (induction subsets arbitrary: s)
  case Nil
  then obtain res where "self s ''results'' = Some (Ext res)" by (auto simp: ready_def)
  then have "self s = (self s)(''results'' \<mapsto> Ext res)" by (simp add: map_upd_triv)
  then show ?case unfolding for_each.simps ret_def by blast
next
  case (Cons m subsets)
  from run_modality_ok[OF cs Cons.prems, of rid tr te m] obtain s1 res1 where
    1: "run_modality c env rid tr te m s = (Inr (), s1)"
       "self s1 = (self s)(''results'' \<mapsto> Ext res1)" "files s1 = files s" "rng s1 = rng s"
    by blast
  from ready_results[OF Cons.prems 1(2)] have "ready s1 d est k" .
  from Cons.IH[OF this] obtain s2 res2 where
    2: "for_each (run_modality c env rid tr te) subsets s1 = (Inr (), s2)"
       "self s2 = (self s1)(''results'' \<mapsto> Ext res2)" "files s2 = files s1" "rng s2 = rng s1"
    by blast
  have e: "for_each (run_modality c env rid tr te) (m # subsets) s = (Inr (), s2)"
    using 1(1) 2(1) by (simp add: thenm_def bindm_def)
  have h: "self s2 = (self s)(''results'' \<mapsto> Ext res2)" using 1(2) 2(2) by simp
  have f: "files s2 = files s" "rng s2 = rng s" using 1 2 by simp_all
  from e h f show ?case by blast
qed

lemma process_split_ok:
  assumes cs: "collaborators_succeed c env est" and rd: "ready s d est k"
  shows "\<exists>s'. process_split c env rid tr te s = (Inr (), s')
              \<and> (\<exists>res. self s' = (self s)(''results'' \<mapsto> Ext res))"
proof -
  let ?s0 = "s\<lparr>trace := trace s @ [EvGetSubsets]\<rparr>"
  have rd0: "ready ?s0 d est k" using rd by (simp add: ready_def)
  from cs have g: "\<And>tr te. ok (get_subsets env d tr te)"
    and du: "\<And>res out fs. ok (results_dump env res out fs)"
    by (simp_all add: collaborators_succeed_def)
  from modalities_ok[OF cs rd0, of rid tr te "projr (get_subsets env d tr te)"]
  obtain s1 res1 where
    1: "for_each (run_modality c env rid tr te) (projr (get_subsets env d tr te)) ?s0
          = (Inr (), s1)"
       "self s1 = (self s)(''results'' \<mapsto> Ext res1)"
    by auto
  from rd obtain cp od where
    a: "self s ''datasets'' = Some (Ext d)" "self s ''_checkpointing'' = Some cp"
       "self s ''out_dir'' = Some od"
    by (auto simp: ready_def)
  have b: "self s1 ''_checkpointing'' = Some cp" "self s1 ''out_dir'' = Some od"
    "self s1 ''results'' = Some (Ext res1)"
    using 1(2) a by simp_all
  have e: "thenm (for_each (run_modality c env rid tr te) (projr (get_subsets env d tr te))) h ?s0
           = h s1" for h :: "('a, unit) act"
    using 1(1) by (simp add: thenm_def bindm_def)
  show ?thesis
    unfolding process_split_def using a g
    apply (simp add: step_simps e)
    using b 1(2) du
    apply (auto simp: step_simps ret_def update_files_def ok_def split: sum.splits)
    apply (metis sum.disc(1))
    done
qed


lemma draw_bind: "bindm (draw f) g s = g (fst (f (rng s))) (s\<lparr>rng := snd (f (rng s))\<rparr>)"
  by (simp add: bindm_def draw_def)

lemma single_run_cv_eq:
  assumes "self s ''_id_list'' = Some (PyList ids)"
    and "self s ''_train_set_size'' = Some (PyInt k)"
  shows "single_run_cv c env rid s =
           process_split c env rid
             (py_slice_to (fst (shuffle env (rng s) ids)) k)
             (remdups (filter (\<lambda>x. x \<notin> set (py_slice_to (fst (shuffle env (rng s) ids)) k))
                (fst (shuffle env (rng s) ids))))
             (s\<lparr>rng := snd (shuffle env (rng s) ids),
                self := (self s)(''_id_list'' \<mapsto> PyList (fst (shuffle env (rng s) ids))),
                trace := trace s @
                  [EvSplit rid (py_slice_to (fst (shuffle env (rng s) ids)) k)
                     (remdups (filter
                        (\<lambda>x. x \<notin> set (py_slice_to (fst (shuffle env (rng s) ids)) k))
                        (fst (shuffle env (rng s) ids))))]\<rparr>)"
  using assms
  by (simp add: single_run_cv_def step_simps draw_bind py_index_def Let_def)

lemma single_run_cv_inv:
  assumes idl: "self s ''_id_list'' = Some (PyList ids)"
    and tss: "self s ''_train_set_size'' = Some (PyInt k)"
  shows "\<exists>ids' t tr te.
           self (snd (single_run_cv c env rid s)) ''_id_list'' = Some (PyList ids')
         \<and> mset ids' = mset ids
         \<and> self (snd (single_run_cv c env rid s)) ''_train_set_size'' = Some (PyInt k)
         \<and> trace (snd (single_run_cv c env rid s)) = trace s @ EvSplit rid tr te # t
         \<and> split_ok (set ids) (length (py_slice_to ids k)) (EvSplit rid tr te)
         \<and> list_all (\<lambda>e. \<not> is_split e) t"
    and "\<forall>key. key \<in> {''results'', ''_id_list''}
           \<or> self (snd (single_run_cv c env rid s)) key = self s key"
proof -
  let ?ids = "fst (shuffle env (rng s) ids)"
  let ?tr = "py_slice_to ?ids k"
  let ?te = "remdups (filter (\<lambda>x. x \<notin> set ?tr) ?ids)"
  let ?mid = "s\<lparr>rng := snd (shuffle env (rng s) ids),
                self := (self s)(''_id_list'' \<mapsto> PyList ?ids),
                trace := trace s @ [EvSplit rid ?tr ?te]\<rparr>"
  let ?s' = "snd (single_run_cv c env rid s)"
  have eq: "?s' = snd (process_split c env rid ?tr ?te ?mid)"
    using single_run_cv_eq[OF idl tss] by simp
  from keeps_process_split[of c env rid ?tr ?te]
  have "step_rel {''results''} (\<lambda>e. \<not> is_split e) ?mid ?s'"
    unfolding eq by (simp add: keeps_def)
  then obtain t where
    t: "trace ?s' = trace ?mid @ t" "list_all (\<lambda>e. \<not> is_split e) t"
    and k: "\<And>key. key \<in> {''results''} \<or> self ?s' key = self ?mid key"
    unfolding step_rel_def by blast
  have 1: "self ?s' ''_id_list'' = Some (PyList ?ids)" using k[of "''_id_list''"] by simp
  have 2: "self ?s' ''_train_set_size'' = Some (PyInt k)"
    using k[of "''_train_set_size''"] tss by simp
  have 3: "trace ?s' = trace s @ EvSplit rid ?tr ?te # t" using t(1) by simp
  have 4: "split_ok (set ids) (length (py_slice_to ids k)) (EvSplit rid ?tr ?te)"
    by (rule drawn_split_ok) (rule shuffle_mset)
  from 1 2 3 4 t(2) shuffle_mset[of env "rng s" ids]
  show "\<exists>ids' t tr te.
           self ?s' ''_id_list'' = Some (PyList ids')
         \<and> mset ids' = mset ids
         \<and> self ?s' ''_train_set_size'' = Some (PyInt k)
         \<and> trace ?s' = trace s @ EvSplit rid tr te # t
         \<and> split_ok (set ids) (length (py_slice_to ids k)) (EvSplit rid tr te)
         \<and> list_all (\<lambda>e. \<not> is_split e) t"
    by blast
  show "\<forall>key. key \<in> {''results'', ''_id_list''} \<or> self ?s' key = self s key"
  proof
    fix key
    show "key \<in> {''results'', ''_id_list''} \<or> self ?s' key = self s key"
      using k[of key] by (cases "key = ''_id_list''") auto
  qed
qed

lemma single_run_cv_ok:
  assumes cs: "collaborators_succeed c env est" and rd: "ready s d est k"
    and idl: "self s ''_id_list'' = Some (PyList ids)"
  shows "\<exists>s'. single_run_cv c env rid s = (Inr (), s') \<and> ready s' d est k"
proof -
  from rd have tss: "self s ''_train_set_size'' = Some (PyInt k)" by (simp add: ready_def)
  let ?ids = "fst (shuffle env (rng s) ids)"
  let ?tr = "py_slice_to ?ids k"
  let ?te = "remdups (filter (\<lambda>x. x \<notin> set ?tr) ?ids)"
  let ?mid = "s\<lparr>rng := snd (shuffle env (rng s) ids),
                self := (self s)(''_id_list'' \<mapsto> PyList ?ids),
                trace := trace s @ [EvSplit rid ?tr ?te]\<rparr>"
  have rm: "ready ?mid d est k" using rd by (simp add: ready_def)
  from process_split_ok[OF cs rm, of rid ?tr ?te] obtain s' res where
    s': "process_split c env rid ?tr ?te ?mid = (Inr (), s')"
        "self s' = (self ?mid)(''results'' \<mapsto> Ext res)"
    by blast
  from ready_results[OF rm s'(2)] have "ready s' d est k" .
  with s'(1) single_run_cv_eq[OF idl tss, of c env rid] show ?thesis by simp
qed


section \<open>The repetitions\<close>

lemma splits_nosplit: "list_all (\<lambda>e. \<not> is_split e) t \<Longrightarrow> splits t = []"
  by (induction t) (simp_all add: splits_def)

lemma snd_thenm:
  "snd (thenm f g s) = (case f s of (Inl e, s1) \<Rightarrow> s1 | (Inr x, s1) \<Rightarrow> snd (g s1))"
  by (simp add: thenm_def bindm_def split: prod.splits sum.splits)

lemma reps_inv:
  assumes "self s ''_id_list'' = Some (PyList ids)"
    and "self s ''_train_set_size'' = Some (PyInt k)"
  shows "\<exists>ids' t.
           self (snd (for_each (\<lambda>rep. single_run_cv c env (PyInt (int rep))) reps s)) ''_id_list''
             = Some (PyList ids')
         \<and> mset ids' = mset ids
         \<and> trace (snd (for_each (\<lambda>rep. single_run_cv c env (PyInt (int rep))) reps s))
             = trace s @ t
         \<and> list_all (split_ok (set ids) (length (py_slice_to ids k))) t
         \<and> (\<forall>key. key \<in> {''results'', ''_id_list''}
               \<or> self (snd (for_each (\<lambda>rep. single_run_cv c env (PyInt (int rep))) reps s)) key
                   = self s key)"
  using assms
proof (induction reps arbitrary: s ids)
  case Nil
  then show ?case by (simp add: ret_def)
next
  case (Cons rep reps)
  let ?f = "\<lambda>rep. single_run_cv c env (PyInt (int rep))"
  obtain r1 s1 where f: "?f rep s = (r1, s1)" by (cases "?f rep s")
  then have s1: "s1 = snd (single_run_cv c env (PyInt (int rep)) s)" by simp
  from single_run_cv_inv[OF Cons.prems, of c env "PyInt (int rep)"] obtain ids1 t1 tr te where
    1: "self s1 ''_id_list'' = Some (PyList ids1)" "mset ids1 = mset ids"
       "self s1 ''_train_set_size'' = Some (PyInt k)"
       "trace s1 = trace s @ EvSplit (PyInt (int rep)) tr te # t1"
       "split_ok (set ids) (length (py_slice_to ids k)) (EvSplit (PyInt (int rep)) tr te)"
       "list_all (\<lambda>e. \<not> is_split e) t1"
    and k1: "\<forall>key. key \<in> {''results'', ''_id_list''} \<or> self s1 key = self s key"
    unfolding s1 by blast
  have e1: "set ids1 = set ids" "length (py_slice_to ids1 k) = length (py_slice_to ids k)"
    using 1(2) by (metis set_mset_mset, metis size_mset py_slice_to_length)
  have ok1: "list_all (split_ok (set ids) (length (py_slice_to ids k)))
               (EvSplit (PyInt (int rep)) tr te # t1)"
    using 1(5,6) by (simp add: nosplit_all_ok del: split_ok.simps)
  show ?case
  proof (cases r1)
    case (Inl e)
    then have "snd (for_each ?f (rep # reps) s) = s1" using f by (simp add: snd_thenm)
    with 1 k1 ok1 show ?thesis by auto
  next
    case (Inr u)
    then have e: "snd (for_each ?f (rep # reps) s) = snd (for_each ?f reps s1)"
      using f by (simp add: snd_thenm)
    from Cons.IH[OF 1(1) 1(3)] obtain ids2 t2 where
      2: "self (snd (for_each ?f reps s1)) ''_id_list'' = Some (PyList ids2)"
         "mset ids2 = mset ids1"
         "trace (snd (for_each ?f reps s1)) = trace s1 @ t2"
         "list_all (split_ok (set ids1) (length (py_slice_to ids1 k))) t2"
         "\<forall>key. key \<in> {''results'', ''_id_list''}
               \<or> self (snd (for_each ?f reps s1)) key = self s1 key"
      by blast
    have "trace (snd (for_each ?f reps s1)) = trace s @ (EvSplit (PyInt (int rep)) tr te # t1) @ t2"
      using 2(3) 1(4) by simp
    moreover have "list_all (split_ok (set ids) (length (py_slice_to ids k)))
                     ((EvSplit (PyInt (int rep)) tr te # t1) @ t2)"
      using ok1 2(4) e1 by (simp del: split_ok.simps)
    moreover have "\<forall>key. key \<in> {''results'', ''_id_list''}
               \<or> self (snd (for_each ?f reps s1)) key = self s key"
      using 2(5) k1 by metis
    ultimately show ?thesis unfolding e using 2(1,2) 1(2) by (metis (no_types, lifting))
  qed
qed


lemma splits_append: "splits (a @ b) = splits a @ splits b"
  by (simp add: splits_def)

lemma reps_ok:
  assumes cs: "collaborators_succeed c env est"
  shows "ready s d est k \<Longrightarrow> self s ''_id_list'' = Some (PyList ids) \<Longrightarrow>
         \<exists>s' t. for_each (\<lambda>rep. single_run_cv c env (PyInt (int rep))) reps s = (Inr (), s')
              \<and> ready s' d est k
              \<and> trace s' = trace s @ t
              \<and> map split_id (splits t) = map (\<lambda>rep. PyInt (int rep)) reps"
proof (induction reps arbitrary: s ids)
  case Nil
  then show ?case by (simp add: ret_def splits_def)
next
  case (Cons rep reps)
  let ?f = "\<lambda>rep. single_run_cv c env (PyInt (int rep))"
  from Cons.prems(1) have tss: "self s ''_train_set_size'' = Some (PyInt k)"
    by (simp add: ready_def)
  from single_run_cv_ok[OF cs Cons.prems, of "PyInt (int rep)"] obtain s1 where
    s1: "?f rep s = (Inr (), s1)" "ready s1 d est k" by blast
  from single_run_cv_inv(1)[OF Cons.prems(2) tss, of c env "PyInt (int rep)"] s1(1)
  obtain ids1 t1 tr te where
    1: "self s1 ''_id_list'' = Some (PyList ids1)"
       "trace s1 = trace s @ EvSplit (PyInt (int rep)) tr te # t1"
       "list_all (\<lambda>e. \<not> is_split e) t1"
    by auto
  from Cons.IH[OF s1(2) 1(1)] obtain s2 t2 where
    2: "for_each ?f reps s1 = (Inr (), s2)" "ready s2 d est k" "trace s2 = trace s1 @ t2"
       "map split_id (splits t2) = map (\<lambda>rep. PyInt (int rep)) reps"
    by blast
  have a: "for_each ?f (rep # reps) s = (Inr (), s2)"
    using s1(1) 2(1) by (simp add: thenm_def bindm_def)
  have b: "trace s2 = trace s @ (EvSplit (PyInt (int rep)) tr te # t1) @ t2"
    using 1(2) 2(3) by simp
  have "splits t1 = []" by (rule splits_nosplit[OF 1(3)])
  then have "splits ((EvSplit (PyInt (int rep)) tr te # t1) @ t2)
             = EvSplit (PyInt (int rep)) tr te # splits t2"
    by (simp add: splits_def)
  then have c: "map split_id (splits ((EvSplit (PyInt (int rep)) tr te # t1) @ t2))
                = map (\<lambda>rep. PyInt (int rep)) (rep # reps)"
    using 2(4) by simp
  from a 2(2) b c show ?case by blast
qed

lemma run_cv_parallel:
  assumes "self s ''num_procs'' = Some (PyInt kp)" and "1 < kp"
  shows "run_cv c env s =
           (Inl (NotImplementedError
                   ''parallel runs not implemented yet!Use num_procs=1 for now''), s)"
  using assms by (simp add: run_cv_def step_simps py_num_def float_lt_def raise_def)

lemma run_cv_sequential:
  assumes "self s ''num_procs'' = Some (PyInt kp)" and "kp \<le> 1"
    and "self s ''num_rep_cv'' = Some (PyInt n)"
  shows "run_cv c env s =
           for_each (\<lambda>rep. single_run_cv c env (PyInt (int rep))) [0..<nat n] s"
  using assms by (simp add: run_cv_def step_simps py_num_def py_index_def float_lt_def)


section \<open>Saving, loading and finishing\<close>

lemma load_attrs:
  "\<forall>var \<in> set vars. map_of dct var \<noteq> None \<Longrightarrow>
   \<exists>s'. for_each (\<lambda>var. case map_of dct var of None \<Rightarrow> raise KeyError
                                 | Some v \<Rightarrow> set_attr var v) vars s = (Inr (), s')
        \<and> (\<forall>key. self s' key = (if key \<in> set vars then map_of dct key else self s key))
        \<and> trace s' = trace s \<and> files s' = files s \<and> rng s' = rng s"
proof (induction vars arbitrary: s)
  case Nil
  then show ?case by (simp add: ret_def)
next
  case (Cons var vars)
  then obtain v where v: "map_of dct var = Some v" by auto
  let ?s1 = "s\<lparr>self := (self s)(var \<mapsto> v)\<rparr>"
  from Cons.IH[of ?s1] Cons.prems obtain s' where
    s': "for_each (\<lambda>var. case map_of dct var of None \<Rightarrow> raise KeyError
                                 | Some v \<Rightarrow> set_attr var v) vars ?s1 = (Inr (), s')"
        "\<forall>key. self s' key = (if key \<in> set vars then map_of dct key else self ?s1 key)"
        "trace s' = trace ?s1" "files s' = files ?s1" "rng s' = rng ?s1"
    by auto
  have "for_each (\<lambda>var. case map_of dct var of None \<Rightarrow> raise KeyError
                                 | Some v \<Rightarrow> set_attr var v) (var # vars) s = (Inr (), s')"
    using v s'(1) by (simp add: set_attr_then)
  moreover have "\<forall>key. self s' key = (if key \<in> set (var # vars) then map_of dct key else self s key)"
    using s'(2) v by auto
  ultimately show ?case using s'(3-5) by auto
qed

lemma load_ok:
  assumes "self s ''_out_results_path'' = Some (PyStr path)"
    and "files s path = Some (Pickle dct)"
    and "\<forall>var \<in> set (results_to_save c). map_of dct var \<noteq> None"
  shows "\<exists>s'. load c env s = (Inr (), s')
        \<and> (\<forall>key. self s' key
               = (if key \<in> set (results_to_save c) then map_of dct key else self s key))
        \<and> trace s' = trace s @ [EvLoad] \<and> files s' = files s \<and> rng s' = rng s"
proof -
  from load_attrs[OF assms(3), of "s\<lparr>trace := trace s @ [EvLoad]\<rparr>"] obtain s' where
    s': "for_each (\<lambda>var. case map_of dct var of None \<Rightarrow> raise KeyError
                                 | Some v \<Rightarrow> set_attr var v) (results_to_save c)
           (s\<lparr>trace := trace s @ [EvLoad]\<rparr>) = (Inr (), s')"
        "\<forall>key. self s' key
               = (if key \<in> set (results_to_save c) then map_of dct key else self s key)"
        "trace s' = trace s @ [EvLoad]" "files s' = files s" "rng s' = rng s"
    by auto
  have "load c env s = (Inr (), s')" using assms(1,2) s'(1) by (simp add: load_def emit_then)
  with s'(2-5) show ?thesis by blast
qed

lemma save_ok:
  assumes "self s ''_out_results_path'' = Some (PyStr path)"
    and "can_open_w env path"
    and "picklable env (map (\<lambda>var. (var, getattr_none (self s) var)) (results_to_save c))"
  shows "save c env s =
           (Inr path,
            s\<lparr>files := (files s)(path \<mapsto>
                  Pickle (map (\<lambda>var. (var, getattr_none (self s) var)) (results_to_save c))),
               trace := trace s @ [EvSave]\<rparr>)"
  using assms by (simp add: save_def Let_def)

lemma map_of_saved:
  "var \<in> set vars \<Longrightarrow> map_of (map (\<lambda>var. (var, f var)) vars) var = Some (f var)"
  by (induction vars) auto

lemma keeps_load: "keeps (step_rel UNIV (\<lambda>e. \<not> is_split e)) (load c env)"
  unfolding keeps_def
proof
  fix s :: "'a sys"
  have k: "keeps (step_rel UNIV (\<lambda>e. \<not> is_split e))
             (thenm (emit EvLoad)
                (for_each (\<lambda>var. case map_of dct var of None \<Rightarrow> raise KeyError
                                 | Some v \<Rightarrow> set_attr var v) (results_to_save c)))" for dct :: "(string \<times> 'a pyval) list"
    by (intro keeps_intros) (auto split: option.splits intro: keeps_intros)
  show "step_rel UNIV (\<lambda>e. \<not> is_split e) s (snd (load c env s))"
    using k by (auto simp: load_def keeps_def step_rel_refl
        split: option.splits pyval.splits fcontent.splits)
qed

lemma keeps_save: "keeps (step_rel UNIV (\<lambda>e. \<not> is_split e)) (save c env)"
  by (auto simp: keeps_def save_def Let_def step_rel_def split: option.splits pyval.splits)

lemma keeps_finish: "keeps (step_rel {} (\<lambda>e. \<not> is_split e)) (finish env path)"
  by (auto simp: keeps_def finish_def act_defs step_rel_def split: sum.splits)

lemma finish_ok:
  assumes "ok (summarize env (self s))" and "ok (visualize env (self s))"
  shows "finish env path s =
           (Inr path, s\<lparr>trace := trace s @ [EvSummarize (projr (summarize env (self s))),
                                             EvVisualize]\<rparr>)"
  using assms by (cases "summarize env (self s)"; cases "visualize env (self s)")
    (simp_all add: finish_def act_defs ok_def)


section \<open>Rejected configurations\<close>

lemma prepare_nonfinite:
  assumes "self s ''num_rep_cv'' = Some (PyFloat x)" and "\<forall>q. x \<noteq> Fin q"
  shows "prepare c env s =
           (Inl (if x = NaN then ValueError ''cannot convert float NaN to integer''
                 else OverflowError), s)"
  using assms by (cases x) (simp_all add: prepare_def act_defs py_int_def)


lemma prepare_bad_train_perc:
  assumes "self s ''num_rep_cv'' = Some r" and "py_int env r = Inr n" and "1 < n"
    and "self s ''train_perc'' = Some tp" and "py_num tp = Inr x"
    and "float_le x (Fin 0) \<or> float_ge x (Fin 1)"
  shows "prepare c env s =
           (Inl (ValueError ''Train perc > 0.0 and < 1.0''),
            s\<lparr>self := (self s)(''num_rep_cv'' \<mapsto> PyInt n)\<rparr>)"
  using assms by (auto simp add: prepare_def act_defs np_isfinite_def)

lemma prepare_bad_level:
  assumes "self s ''grid_search_level'' = Some g" and "py_lower g = Inr level"
    and "level \<notin> set (GRIDSEARCH_LEVELS c)"
  shows "\<exists>e. fst (prepare c env s) = Inl e"
    and "trace (snd (prepare c env s)) = trace s"
  using assms
  by (auto simp add: prepare_def act_defs np_isfinite_def split: sum.splits option.splits)

lemma init_bad_workflow_type:
  assumes "py_lower (arg_workflow_type a) = Inr wt" and "wt \<notin> set (workflow_types c)"
  shows "fst (init c env a s) = Inl (ValueError ''Invalid workflow.'')"
    and "trace (snd (init c env a s)) = trace s"
  using assms by (simp_all add: init_def act_defs)


section \<open>The whole run\<close>

lemma run_prepared:
  assumes "prepare c env s = (Inr (), sp)"
    and "self sp ''_out_results_path'' = Some (PyStr path)"
  shows "run c env s =
           thenm (\<lambda>s. if nonempty_file (files s) path
                     then load c env s
                     else thenm (run_cv c env) (bindm (save c env) (\<lambda>_. ret ())) s)
             (finish env path) sp"
  using assms by (simp add: run_def thenm_def bindm_def read_attr_def)

lemma ready_prepared:
  assumes vc: "valid_config c env s n p k d out" and cc: "complete_config s est"
    and fr: "\<forall>key. key \<in> {''num_rep_cv'', ''num_procs'', ''_id_list'', ''_num_samples'',
                       ''_train_set_size'', ''_out_results_path'', ''_target_sizes'',
                       ''_chance_accuracy''}
              \<or> self sp key = self s key"
    and tss: "self sp ''_train_set_size'' = Some (PyInt m)"
  shows "ready sp d est m"
proof -
  have e: "self sp key = self s key"
    if "key \<in> {''datasets'', ''pred_model'', ''impute_strategy'', ''covariates'', ''deconfounder'',
              ''dim_red_method'', ''reduced_dim'', ''grid_search_level'', ''train_perc'',
              ''_checkpointing'', ''out_dir'', ''results''}" for key
    using fr[rule_format, of key] that by auto
  from vc have v: "self s ''datasets'' = Some (Ext d)" "self s ''train_perc'' \<noteq> None"
    "self s ''grid_search_level'' \<noteq> None" "self s ''out_dir'' \<noteq> None"
    by (auto simp: valid_config_def)
  from cc have c: "self s ''pred_model'' = Some (PyStr est)"
    "self s ''impute_strategy'' \<noteq> None" "self s ''covariates'' \<noteq> None"
    "self s ''deconfounder'' \<noteq> None" "self s ''dim_red_method'' \<noteq> None"
    "self s ''reduced_dim'' \<noteq> None" "self s ''_checkpointing'' \<noteq> None"
    "\<exists>res. self s ''results'' = Some (Ext res)"
    by (auto simp: complete_config_def)
  show ?thesis unfolding ready_def using v c tss by (simp add: e)
qed


lemma grows_refl: "grows E s s"
  by (simp add: grows_def)

lemma grows_trans: "grows E s t \<Longrightarrow> grows E t u \<Longrightarrow> grows E s u"
  unfolding grows_def by (metis append.assoc list_all_append)

lemma grows_nosplit: "grows (\<lambda>e. \<not> is_split e) s t \<Longrightarrow> grows (split_ok U n) s t"
  unfolding grows_def using nosplit_all_ok by blast

lemma step_rel_grows: "step_rel A E s t \<Longrightarrow> grows E s t"
  by (auto simp: step_rel_def grows_def)

lemma keeps_grows: "keeps (step_rel A E) f \<Longrightarrow> grows E s (snd (f s))"
  by (auto simp: keeps_def intro: step_rel_grows)

lemma grows_thenm:
  assumes "grows E s (snd (f s))" and "\<And>s1. grows E s1 (snd (g s1))"
  shows "grows E s (snd (thenm f g s))"
proof (cases "f s")
  case (Pair r s1)
  show ?thesis
  proof (cases r)
    case (Inl e)
    with Pair assms(1) show ?thesis by (simp add: snd_thenm)
  next
    case (Inr u)
    have a: "grows E s1 (snd (g s1))" by (rule assms(2))
    have b: "snd (thenm f g s) = snd (g s1)" using Pair Inr by (simp add: snd_thenm)
    have c: "grows E s s1" using assms(1) Pair by simp
    show ?thesis unfolding b using c a by (rule grows_trans)
  qed
qed

lemma run_cv_grows:
  assumes "self s ''num_procs'' = Some (PyInt kp)" and "self s ''num_rep_cv'' = Some (PyInt n)"
    and "self s ''_id_list'' = Some (PyList ids)"
    and "self s ''_train_set_size'' = Some (PyInt m)"
  shows "grows (split_ok (set ids) (length (py_slice_to ids m))) s (snd (run_cv c env s))"
proof (cases "1 < kp")
  case True
  with assms(1) show ?thesis by (simp add: run_cv_parallel grows_refl)
next
  case False
  then have "kp \<le> 1" by simp
  from run_cv_sequential[OF assms(1) this assms(2)] reps_inv[OF assms(3,4), of c env "[0..<nat n]"]
  show ?thesis unfolding grows_def by metis
qed

lemma prepare_grows:
  "grows (\<lambda>e. \<not> is_split e) s (snd (prepare c env s))"
proof -
  have "keeps (step_rel UNIV (\<lambda>e. \<not> is_split e)) (summarize_expt env)"
    unfolding summarize_expt_def by (intro keeps_intros) simp_all
  then have "keeps (step_rel UNIV (\<lambda>e. \<not> is_split e)) (prepare c env)"
    unfolding prepare_def Let_def by (intro keeps_intros) simp_all
  then show ?thesis by (rule keeps_grows)
qed

lemma run_grows:
  assumes vc: "valid_config c env s n p k d out"
  shows "grows (split_ok (set (samplet_ids env d))
                 (length (py_slice_to (samplet_ids env d)
                    (max 1 (min (int (length (samplet_ids env d)))
                       \<lfloor>of_int (int (length (samplet_ids env d))) * p\<rfloor>)))))
           s (snd (run c env s))"
proof -
  let ?ids = "samplet_ids env d"
  let ?m = "max 1 (min (int (length ?ids)) \<lfloor>of_int (int (length ?ids)) * p\<rfloor>)"
  let ?E = "split_ok (set ?ids) (length (py_slice_to ?ids ?m))"
  let ?P = "results_path c out"
  from prepare_valid[OF vc] obtain sp where
    sp: "prepare c env s = (Inr (), sp)" "self sp ''num_rep_cv'' = Some (PyInt n)"
        "self sp ''num_procs'' = Some (PyInt k)" "self sp ''_id_list'' = Some (PyList ?ids)"
        "self sp ''_train_set_size'' = Some (PyInt ?m)"
        "self sp ''_out_results_path'' = Some (PyStr ?P)"
    by blast
  have g0: "grows ?E s sp" using prepare_grows[of s c env] sp(1) by (simp add: grows_nosplit)
  let ?branch = "\<lambda>s. if nonempty_file (files s) ?P then load c env s
                       else thenm (run_cv c env) (bindm (save c env) (\<lambda>_. ret ())) s"
  have sv: "grows ?E s1 (snd (bindm (save c env) (\<lambda>_. ret ()) s1))" for s1 :: "'a sys"
  proof -
    have "keeps (step_rel UNIV (\<lambda>e. \<not> is_split e)) (bindm (save c env) (\<lambda>_. ret ()))"
      by (intro keeps_bindm keeps_save keeps_ret)
    then show ?thesis by (intro grows_nosplit) (rule keeps_grows)
  qed
  have g1: "grows ?E sp (snd (?branch sp))"
  proof (cases "nonempty_file (files sp) ?P")
    case True
    then show ?thesis using keeps_grows[OF keeps_load, of sp c env] by (simp add: grows_nosplit)
  next
    case False
    have "grows ?E sp (snd (thenm (run_cv c env) (bindm (save c env) (\<lambda>_. ret ())) sp))"
      by (rule grows_thenm) (use run_cv_grows[OF sp(3,2,4,5)] sv in auto)
    with False show ?thesis by simp
  qed
  have g2: "grows ?E sp (snd (thenm ?branch (finish env ?P) sp))"
  proof (rule grows_thenm[where f = "?branch"])
    show "grows ?E sp (snd (?branch sp))" by (rule g1)
  next
    fix s1 show "grows ?E s1 (snd (finish env ?P s1))"
      by (rule grows_nosplit, rule keeps_grows, rule keeps_finish)
  qed
  from run_prepared[OF sp(1) sp(6)] g0 g2 show ?thesis by (auto intro: grows_trans)
qed


lemma run_fresh_ok:
  assumes vc: "valid_config c env s n p k d out" and cc: "complete_config s est"
    and cs: "collaborators_succeed c env est" and seq: "k \<le> 1"
    and fresh: "\<not> nonempty_file (files s) (results_path c out)"
    and w: "can_open_w env (results_path c out)" and pk: "\<And>dct. picklable env dct"
    and sm: "\<And>obj. ok (summarize env obj)" and vz: "\<And>obj. ok (visualize env obj)"
  shows "\<exists>s' t. run c env s = (Inr (results_path c out), s')
           \<and> trace s' = trace s @ t @ [EvSave, EvSummarize (projr (summarize env (self s'))),
                                         EvVisualize]
           \<and> map split_id (splits t) = map (\<lambda>rep. PyInt (int rep)) [0..<nat n]
           \<and> files s' (results_path c out)
               = Some (Pickle (map (\<lambda>var. (var, getattr_none (self s') var))
                                 (results_to_save c)))"
proof -
  let ?P = "results_path c out"
  let ?f = "\<lambda>rep. single_run_cv c env (PyInt (int rep))"
  from prepare_valid[OF vc] obtain sp m where
    sp: "prepare c env s = (Inr (), sp)" "self sp ''num_rep_cv'' = Some (PyInt n)"
        "self sp ''num_procs'' = Some (PyInt k)"
        "self sp ''_id_list'' = Some (PyList (samplet_ids env d))"
        "self sp ''_train_set_size'' = Some (PyInt m)"
        "self sp ''_out_results_path'' = Some (PyStr ?P)"
        "files sp = files s"
        "\<forall>key. key \<in> {''num_rep_cv'', ''num_procs'', ''_id_list'', ''_num_samples'',
                       ''_train_set_size'', ''_out_results_path'', ''_target_sizes'',
                       ''_chance_accuracy''}
              \<or> self sp key = self s key"
        "trace sp = trace s @ EvSampleIds #
           (if self s ''_workflow_type'' = Some (PyStr ''classify'') then [EvTargetSizes] else [])"
    by blast
  have rd: "ready sp d est m" by (rule ready_prepared[OF vc cc sp(8) sp(5)])
  from reps_ok[OF cs rd sp(4), of "[0..<nat n]"] obtain s1 t1 where
    s1: "for_each ?f [0..<nat n] sp = (Inr (), s1)" "trace s1 = trace sp @ t1"
        "map split_id (splits t1) = map (\<lambda>rep. PyInt (int rep)) [0..<nat n]"
    by blast
  have rc: "run_cv c env sp = (Inr (), s1)"
    using run_cv_sequential[OF sp(3) seq sp(2), of c env] s1(1) by simp
  from reps_inv[OF sp(4,5), of c env "[0..<nat n]"]
  have fr: "\<forall>key. key \<in> {''results'', ''_id_list''}
               \<or> self (snd (for_each ?f [0..<nat n] sp)) key = self sp key"
    by blast
  from fr[rule_format, of "''_out_results_path''"] s1(1)
  have "self s1 ''_out_results_path'' = self sp ''_out_results_path''" by simp
  with sp(6) have p1: "self s1 ''_out_results_path'' = Some (PyStr ?P)" by simp
  let ?d = "map (\<lambda>var. (var, getattr_none (self s1) var)) (results_to_save c)"
  let ?s2 = "s1\<lparr>files := (files s1)(?P \<mapsto> Pickle ?d), trace := trace s1 @ [EvSave]\<rparr>"
  have sv: "save c env s1 = (Inr ?P, ?s2)" by (rule save_ok[OF p1 w pk])
  let ?s3 = "?s2\<lparr>trace := trace ?s2 @ [EvSummarize (projr (summarize env (self ?s2))),
                                             EvVisualize]\<rparr>"
  have fin: "finish env ?P ?s2 = (Inr ?P, ?s3)" by (rule finish_ok[OF sm vz])
  have br: "(if nonempty_file (files sp) ?P then load c env sp
             else thenm (run_cv c env) (bindm (save c env) (\<lambda>_. ret ())) sp) = (Inr (), ?s2)"
    using fresh sp(7) rc sv by (simp add: thenm_def bindm_def ret_def)
  have r: "run c env s = (Inr ?P, ?s3)"
    unfolding run_prepared[OF sp(1) sp(6)] using br fin by (simp add: thenm_def bindm_def)
  let ?t = "EvSampleIds #
           (if self s ''_workflow_type'' = Some (PyStr ''classify'') then [EvTargetSizes] else [])
           @ t1"
  have tr: "trace ?s3 = trace s @ ?t @ [EvSave, EvSummarize (projr (summarize env (self ?s3))),
                                         EvVisualize]"
    using s1(2) sp(9) by simp
  have sp': "map split_id (splits ?t) = map (\<lambda>rep. PyInt (int rep)) [0..<nat n]"
    using s1(3) by (simp add: splits_def)
  have fl: "files ?s3 ?P = Some (Pickle (map (\<lambda>var. (var, getattr_none (self ?s3) var))
                                 (results_to_save c)))"
    by simp
  show ?thesis
    apply (rule exI[of _ ?s3])
    apply (rule exI[of _ ?t])
    apply (intro conjI)
       apply (rule r)
      apply (rule tr)
     apply (rule sp')
    apply (rule fl)
    done
qed


lemma run_parallel:
  assumes vc: "valid_config c env s n p k d out" and par: "1 < k"
    and fresh: "\<not> nonempty_file (files s) (results_path c out)"
  shows "\<exists>s' t. run c env s =
             (Inl (NotImplementedError
                     ''parallel runs not implemented yet!Use num_procs=1 for now''), s')
           \<and> trace s' = trace s @ t \<and> splits t = [] \<and> files s' = files s"
proof -
  let ?P = "results_path c out"
  from prepare_valid[OF vc] obtain sp where
    sp: "prepare c env s = (Inr (), sp)"
        "self sp ''num_procs'' = Some (PyInt k)"
        "self sp ''_out_results_path'' = Some (PyStr ?P)"
        "files sp = files s"
        "trace sp = trace s @ EvSampleIds #
           (if self s ''_workflow_type'' = Some (PyStr ''classify'') then [EvTargetSizes] else [])"
    by blast
  have r: "run c env s =
             (Inl (NotImplementedError
                     ''parallel runs not implemented yet!Use num_procs=1 for now''), sp)"
    unfolding run_prepared[OF sp(1) sp(3)]
    using fresh sp(4) run_cv_parallel[OF sp(2) par, of c env]
    by (simp add: thenm_def bindm_def)
  have "splits (EvSampleIds #
           (if self s ''_workflow_type'' = Some (PyStr ''classify'') then [EvTargetSizes] else []))
        = []"
    by (simp add: splits_def)
  with r sp(4,5) show ?thesis by blast
qed


section \<open>The small experiment is a valid configuration\<close>

lemma init_ok:
  assumes "py_lower (arg_workflow_type a) = Inr wt" and "wt \<in> set (workflow_types c)"
    and "arg_datasets a = Ext d"
    and "make_results env (wt = ''classify'') (arg_scoring a) (arg_num_rep_cv a)
           (modality_ids env d) = Inr res"
  shows "init c env a s =
     (Inr (), s\<lparr>self := (self s)(''datasets'' \<mapsto> arg_datasets a,
        ''pred_model'' \<mapsto> arg_pred_model a,
        ''impute_strategy'' \<mapsto> arg_impute_strategy a,
        ''covariates'' \<mapsto> arg_covariates a,
        ''deconfounder'' \<mapsto> arg_deconfounder a,
        ''dim_red_method'' \<mapsto> arg_dim_red_method a,
        ''reduced_dim'' \<mapsto> arg_reduced_dim a,
        ''train_perc'' \<mapsto> arg_train_perc a,
        ''num_rep_cv'' \<mapsto> arg_num_rep_cv a,
        ''_scoring'' \<mapsto> arg_scoring a,
        ''grid_search_level'' \<mapsto> arg_grid_search_level a,
        ''out_dir'' \<mapsto> arg_out_dir a,
        ''num_procs'' \<mapsto> arg_num_procs a,
        ''user_options'' \<mapsto> arg_user_options a,
        ''_checkpointing'' \<mapsto> arg_checkpointing a,
        ''_workflow_type'' \<mapsto> PyStr wt,
        ''results'' \<mapsto> Ext res), trace := trace s @ [EvModalityIds]\<rparr>)"
  using assms by (simp add: init_def act_defs)

lemma ex_lower [simp]:
  "py_lower (PyStr ''classify'' :: toy pyval) = Inr ''classify''"
  "py_lower (PyStr ''none'' :: toy pyval) = Inr ''none''"
  by (simp_all add: py_lower_def lower_char_def)

lemma ex_init:
  assumes "arg_workflow_type a = PyStr ''classify''" and "arg_datasets a = Ext Dataset"
  shows "constructed ex_cfg ex_env a empty_sys =
     \<lparr>self = [''datasets'' \<mapsto> arg_datasets a,
        ''pred_model'' \<mapsto> arg_pred_model a,
        ''impute_strategy'' \<mapsto> arg_impute_strategy a,
        ''covariates'' \<mapsto> arg_covariates a,
        ''deconfounder'' \<mapsto> arg_deconfounder a,
        ''dim_red_method'' \<mapsto> arg_dim_red_method a,
        ''reduced_dim'' \<mapsto> arg_reduced_dim a,
        ''train_perc'' \<mapsto> arg_train_perc a,
        ''num_rep_cv'' \<mapsto> arg_num_rep_cv a,
        ''_scoring'' \<mapsto> arg_scoring a,
        ''grid_search_level'' \<mapsto> arg_grid_search_level a,
        ''out_dir'' \<mapsto> arg_out_dir a,
        ''num_procs'' \<mapsto> arg_num_procs a,
        ''user_options'' \<mapsto> arg_user_options a,
        ''_checkpointing'' \<mapsto> arg_checkpointing a,
        ''_workflow_type'' \<mapsto> PyStr ''classify'',
        ''results'' \<mapsto> Ext (Acc [])], files = Map.empty, trace = [EvModalityIds], rng = 0\<rparr>"
proof -
  have "init ex_cfg ex_env a empty_sys = (Inr (), empty_sys\<lparr>self := (self empty_sys)(''datasets'' \<mapsto> arg_datasets a,
        ''pred_model'' \<mapsto> arg_pred_model a,
        ''impute_strategy'' \<mapsto> arg_impute_strategy a,
        ''covariates'' \<mapsto> arg_covariates a,
        ''deconfounder'' \<mapsto> arg_deconfounder a,
        ''dim_red_method'' \<mapsto> arg_dim_red_method a,
        ''reduced_dim'' \<mapsto> arg_reduced_dim a,
        ''train_perc'' \<mapsto> arg_train_perc a,
        ''num_rep_cv'' \<mapsto> arg_num_rep_cv a,
        ''_scoring'' \<mapsto> arg_scoring a,
        ''grid_search_level'' \<mapsto> arg_grid_search_level a,
        ''out_dir'' \<mapsto> arg_out_dir a,
        ''num_procs'' \<mapsto> arg_num_procs a,
        ''user_options'' \<mapsto> arg_user_options a,
        ''_checkpointing'' \<mapsto> arg_checkpointing a,
        ''_workflow_type'' \<mapsto> PyStr ''classify'',
        ''results'' \<mapsto> Ext (Acc [])), trace := trace empty_sys @ [EvModalityIds]\<rparr>)"
    by (rule init_ok[where d = Dataset])
       (simp_all add: assms ex_cfg_def ex_env_def)
  then show ?thesis by (simp add: constructed_def empty_sys_def)
qed

lemma ex_valid:
  assumes "arg_workflow_type a = PyStr ''classify''" and "arg_datasets a = Ext Dataset"
    and "py_int ex_env (arg_num_rep_cv a) = Inr n" and "1 < n"
    and "arg_train_perc a = PyFloat (Fin p)" and "0 < p" and "p < 1"
    and "arg_num_procs a = PyInt k"
    and "arg_grid_search_level a = PyStr ''none''" and "arg_out_dir a = PyStr out"
  shows "valid_config ex_cfg ex_env (constructed ex_cfg ex_env a empty_sys) n p k Dataset out"
  unfolding ex_init[OF assms(1,2)] valid_config_def using assms
  by (simp add: ex_cfg_def ex_env_def)

lemma ex_complete:
  assumes "arg_workflow_type a = PyStr ''classify''" and "arg_datasets a = Ext Dataset"
    and "arg_pred_model a = PyStr est"
  shows "complete_config (constructed ex_cfg ex_env a empty_sys) est"
  unfolding ex_init[OF assms(1,2)] complete_config_def using assms by simp

lemma ex_collaborators: "collaborators_succeed ex_cfg ex_env ''svm''"
  by (simp add: collaborators_succeed_def ok_def ex_cfg_def ex_env_def ex_pipeline_def
      ex_importance_attr_def get_feature_importance_def np_setitem_def np_full_def
      split: toy.splits)


lemma ex_run_fresh:
  assumes a: "arg_workflow_type a = PyStr ''classify''" "arg_datasets a = Ext Dataset"
    "py_int ex_env (arg_num_rep_cv a) = Inr n" "1 < n"
    "arg_train_perc a = PyFloat (Fin p)" "0 < p" "p < 1"
    "arg_num_procs a = PyInt k"
    "arg_grid_search_level a = PyStr ''none''" "arg_out_dir a = PyStr out"
    and m: "arg_pred_model a = PyStr ''svm''" and k: "k \<le> 1"
  shows "\<exists>s' t. run ex_cfg ex_env (constructed ex_cfg ex_env a empty_sys)
               = (Inr (results_path ex_cfg out), s')
           \<and> trace s' = trace (constructed ex_cfg ex_env a empty_sys) @ t
                @ [EvSave, EvSummarize (projr (summarize ex_env (self s'))), EvVisualize]
           \<and> map split_id (splits t) = map (\<lambda>rep. PyInt (int rep)) [0..<nat n]
           \<and> files s' (results_path ex_cfg out)
               = Some (Pickle (map (\<lambda>var. (var, getattr_none (self s') var))
                                 (results_to_save ex_cfg)))"
proof (rule run_fresh_ok[OF ex_valid[OF a] ex_complete[OF a(1,2) m] ex_collaborators k])
  show "\<not> nonempty_file (files (constructed ex_cfg ex_env a empty_sys)) (results_path ex_cfg out)"
    by (simp add: ex_init[OF a(1,2)] nonempty_file_def)
qed (simp_all add: ex_env_def ok_def)

lemma split_exists:
  assumes "map split_id (splits t) = map (\<lambda>rep. PyInt (int rep)) [0..<nat n]" and "1 < n"
  shows "\<exists>rid tr te. EvSplit rid tr te \<in> set t"
proof -
  from assms have "splits t \<noteq> []" by auto
  then obtain e where e: "e \<in> set t" "is_split e"
    by (auto simp: splits_def filter_empty_conv)
  from e(2) obtain rid tr te where "e = EvSplit rid tr te" by (cases e) simp_all
  with e(1) show ?thesis by blast
qed

section \<open>Train and test sets\<close>

text \<open>
  C1. For a valid configuration, every split drawn during the run (one per repetition) has
  disjoint train and test sets whose union is the set of all sample IDs of the dataset
  collection.
\<close>

theorem splits_partition_universe:
  assumes "valid_config c env s n p k d out"
  shows "\<exists>t. trace (snd (run c env s)) = trace s @ t
           \<and> (\<forall>rid tr te. EvSplit rid tr te \<in> set t \<longrightarrow>
                 set tr \<inter> set te = {} \<and> set tr \<union> set te = set (samplet_ids env d))"
proof -
  from run_grows[OF assms] obtain t where
    t: "trace (snd (run c env s)) = trace s @ t"
       "list_all (split_ok (set (samplet_ids env d))
                 (length (py_slice_to (samplet_ids env d)
                    (max 1 (min (int (length (samplet_ids env d)))
                       \<lfloor>of_int (int (length (samplet_ids env d))) * p\<rfloor>))))) t"
    unfolding grows_def by blast
  have "set tr \<inter> set te = {} \<and> set tr \<union> set te = set (samplet_ids env d)"
    if "EvSplit rid tr te \<in> set t" for rid tr te
    using t(2) that unfolding list_all_iff by fastforce
  with t(1) show ?thesis by blast
qed

theorem splits_partition_universe_witness:
  "valid_config ex_cfg ex_env (constructed ex_cfg ex_env ex_args empty_sys) 2 (1 / 2) 1
     Dataset ''out''
   \<and> (\<exists>t rid tr te.
         trace (snd (run ex_cfg ex_env (constructed ex_cfg ex_env ex_args empty_sys)))
           = trace (constructed ex_cfg ex_env ex_args empty_sys) @ t
       \<and> EvSplit rid tr te \<in> set t
       \<and> set tr \<inter> set te = {}
       \<and> set tr \<union> set te = set (samplet_ids ex_env Dataset))"
proof -
  let ?s0 = "constructed ex_cfg ex_env ex_args empty_sys"
  have v: "valid_config ex_cfg ex_env ?s0 2 (1 / 2) 1 Dataset ''out''"
    by (rule ex_valid) (simp_all add: ex_args_def py_int_def)
  from splits_partition_universe[OF v] obtain t where
    t: "trace (snd (run ex_cfg ex_env ?s0)) = trace ?s0 @ t"
       "\<forall>rid tr te. EvSplit rid tr te \<in> set t \<longrightarrow>
          set tr \<inter> set te = {} \<and> set tr \<union> set te = set (samplet_ids ex_env Dataset)"
    by blast
  have "\<exists>s' t. run ex_cfg ex_env ?s0 = (Inr (results_path ex_cfg ''out''), s')
           \<and> trace s' = trace ?s0 @ t
                @ [EvSave, EvSummarize (projr (summarize ex_env (self s'))), EvVisualize]
           \<and> map split_id (splits t) = map (\<lambda>rep. PyInt (int rep)) [0..<nat 2]
           \<and> files s' (results_path ex_cfg ''out'')
               = Some (Pickle (map (\<lambda>var. (var, getattr_none (self s') var))
                                 (results_to_save ex_cfg)))"
    by (rule ex_run_fresh[where p = "1 / 2" and k = 1])
       (simp_all add: ex_args_def py_int_def)
  then obtain s' t' where
    r: "run ex_cfg ex_env ?s0 = (Inr (results_path ex_cfg ''out''), s')"
       "trace s' = trace ?s0 @ t'
                @ [EvSave, EvSummarize (projr (summarize ex_env (self s'))), EvVisualize]"
       "map split_id (splits t') = map (\<lambda>rep. PyInt (int rep)) [0..<nat 2]"
    by blast
  from split_exists[OF r(3)] obtain rid tr te where e: "EvSplit rid tr te \<in> set t'" by auto
  from r(1,2) t(1) have "t = t' @ [EvSave, EvSummarize (projr (summarize ex_env (self s'))),
                                   EvVisualize]"
    by simp
  with e have "EvSplit rid tr te \<in> set t" by simp
  with t v show ?thesis by blast
qed







section \<open>The repetition count\<close>

text \<open>
  C9. A repetition count that is a non-finite float (infinity or NaN) makes \<open>run\<close> raise
  during validation, with the state as it was: \<open>int()\<close> raises OverflowError for an
  infinity and ValueError for NaN, before anything else is done.
\<close>

theorem nonfinite_repetitions_rejected:
  assumes "self s ''num_rep_cv'' = Some (PyFloat x)" and "\<forall>q. x \<noteq> Fin q"
  shows "run c env s =
           (Inl (if x = NaN then ValueError ''cannot convert float NaN to integer''
                 else OverflowError), s)"
  using prepare_nonfinite[OF assms] by (simp add: run_def thenm_def bindm_def)

theorem nonfinite_repetitions_rejected_witness:
  "self (constructed ex_cfg ex_env (ex_args\<lparr>arg_num_rep_cv := PyFloat PInf\<rparr>) empty_sys)
     ''num_rep_cv'' = Some (PyFloat PInf)
   \<and> run ex_cfg ex_env
        (constructed ex_cfg ex_env (ex_args\<lparr>arg_num_rep_cv := PyFloat PInf\<rparr>) empty_sys)
      = (Inl OverflowError,
         constructed ex_cfg ex_env (ex_args\<lparr>arg_num_rep_cv := PyFloat PInf\<rparr>) empty_sys)
   \<and> self (constructed ex_cfg ex_env (ex_args\<lparr>arg_num_rep_cv := PyFloat NaN\<rparr>) empty_sys)
     ''num_rep_cv'' = Some (PyFloat NaN)
   \<and> run ex_cfg ex_env
        (constructed ex_cfg ex_env (ex_args\<lparr>arg_num_rep_cv := PyFloat NaN\<rparr>) empty_sys)
      = (Inl (ValueError ''cannot convert float NaN to integer''),
         constructed ex_cfg ex_env (ex_args\<lparr>arg_num_rep_cv := PyFloat NaN\<rparr>) empty_sys)"
proof -
  let ?s = "\<lambda>x. constructed ex_cfg ex_env (ex_args\<lparr>arg_num_rep_cv := PyFloat x\<rparr>) empty_sys"
  have a: "self (?s x) ''num_rep_cv'' = Some (PyFloat x)" for x
    by (subst ex_init) (simp_all add: ex_args_def)
  from nonfinite_repetitions_rejected[OF a[of PInf], of ex_cfg ex_env]
       nonfinite_repetitions_rejected[OF a[of NaN], of ex_cfg ex_env] a
  show ?thesis by simp
qed







section \<open>The number of workers\<close>

text \<open>
  C8 as stated fails: with two workers the run of a valid configuration raises
  NotImplementedError.
\<close>

theorem parallel_run_raises:
  "valid_config ex_cfg ex_env
     (constructed ex_cfg ex_env (ex_args\<lparr>arg_num_procs := PyInt 2\<rparr>) empty_sys)
     2 (1 / 2) 2 Dataset ''out''
   \<and> fst (run ex_cfg ex_env
            (constructed ex_cfg ex_env (ex_args\<lparr>arg_num_procs := PyInt 2\<rparr>) empty_sys))
      = Inl (NotImplementedError ''parallel runs not implemented yet!Use num_procs=1 for now'')"
proof -
  let ?s = "constructed ex_cfg ex_env (ex_args\<lparr>arg_num_procs := PyInt 2\<rparr>) empty_sys"
  have v: "valid_config ex_cfg ex_env ?s 2 (1 / 2) 2 Dataset ''out''"
    by (rule ex_valid) (simp_all add: ex_args_def py_int_def)
  have fr: "\<not> nonempty_file (files ?s) (results_path ex_cfg ''out'')"
    by (subst ex_init) (simp_all add: ex_args_def nonempty_file_def)
  from run_parallel[OF v _ fr] v show ?thesis by auto
qed

text \<open>
  C8, amended. For a valid configuration on an output location without a non-empty result
  file: when the validated worker count is greater than one, \<open>run\<close> raises
  NotImplementedError after validation, without drawing a split and without writing a
  file; when it is at most one and the collaborators succeed, the sequential loop runs all
  repetitions and the results are saved, summarized and visualized.
\<close>

theorem parallel_runs_not_implemented:
  assumes "valid_config c env s n p k d out"
    and "\<not> nonempty_file (files s) (results_path c out)"
  shows "(1 < k \<longrightarrow>
            (\<exists>s' t. run c env s =
                 (Inl (NotImplementedError
                         ''parallel runs not implemented yet!Use num_procs=1 for now''), s')
               \<and> trace s' = trace s @ t \<and> splits t = [] \<and> files s' = files s))
       \<and> (k \<le> 1 \<and> complete_config s est \<and> collaborators_succeed c env est
            \<and> can_open_w env (results_path c out) \<and> (\<forall>dct. picklable env dct)
            \<and> (\<forall>obj. ok (summarize env obj)) \<and> (\<forall>obj. ok (visualize env obj))
          \<longrightarrow> (\<exists>s' t. run c env s = (Inr (results_path c out), s')
                  \<and> trace s' = trace s @ t
                     @ [EvSave, EvSummarize (projr (summarize env (self s'))), EvVisualize]
                  \<and> map split_id (splits t) = map (\<lambda>rep. PyInt (int rep)) [0..<nat n]))"
proof (intro conjI impI)
  assume "1 < k"
  from run_parallel[OF assms(1) this assms(2)]
  show "\<exists>s' t. run c env s =
                 (Inl (NotImplementedError
                         ''parallel runs not implemented yet!Use num_procs=1 for now''), s')
               \<and> trace s' = trace s @ t \<and> splits t = [] \<and> files s' = files s" .
next
  assume h: "k \<le> 1 \<and> complete_config s est \<and> collaborators_succeed c env est
            \<and> can_open_w env (results_path c out) \<and> (\<forall>dct. picklable env dct)
            \<and> (\<forall>obj. ok (summarize env obj)) \<and> (\<forall>obj. ok (visualize env obj))"
  then have 1: "complete_config s est" "collaborators_succeed c env est" "k \<le> 1"
    and 2: "can_open_w env (results_path c out)" "\<And>dct. picklable env dct"
      "\<And>obj. ok (summarize env obj)" "\<And>obj. ok (visualize env obj)"
    by simp_all
  from run_fresh_ok[OF assms(1) 1 assms(2) 2]
  show "\<exists>s' t. run c env s = (Inr (results_path c out), s')
                  \<and> trace s' = trace s @ t
                     @ [EvSave, EvSummarize (projr (summarize env (self s'))), EvVisualize]
                  \<and> map split_id (splits t) = map (\<lambda>rep. PyInt (int rep)) [0..<nat n]"
    by blast
qed

theorem parallel_runs_not_implemented_witness:
  "valid_config ex_cfg ex_env
     (constructed ex_cfg ex_env (ex_args\<lparr>arg_num_procs := PyInt 2\<rparr>) empty_sys)
     2 (1 / 2) 2 Dataset ''out''
   \<and> \<not> nonempty_file
         (files (constructed ex_cfg ex_env (ex_args\<lparr>arg_num_procs := PyInt 2\<rparr>) empty_sys))
         (results_path ex_cfg ''out'')
   \<and> (\<exists>s' t. run ex_cfg ex_env
                 (constructed ex_cfg ex_env (ex_args\<lparr>arg_num_procs := PyInt 2\<rparr>) empty_sys)
               = (Inl (NotImplementedError
                         ''parallel runs not implemented yet!Use num_procs=1 for now''), s')
          \<and> trace s' = trace (constructed ex_cfg ex_env
                                  (ex_args\<lparr>arg_num_procs := PyInt 2\<rparr>) empty_sys) @ t
          \<and> splits t = [])"
proof -
  let ?s = "constructed ex_cfg ex_env (ex_args\<lparr>arg_num_procs := PyInt 2\<rparr>) empty_sys"
  have v: "valid_config ex_cfg ex_env ?s 2 (1 / 2) 2 Dataset ''out''"
    by (rule ex_valid) (simp_all add: ex_args_def py_int_def)
  have fr: "\<not> nonempty_file (files ?s) (results_path ex_cfg ''out'')"
    by (subst ex_init) (simp_all add: ex_args_def nonempty_file_def)
  from parallel_runs_not_implemented[OF v fr, of "''svm''"] v fr show ?thesis by auto
qed

section \<open>The train fraction\<close>

text \<open>
  A train fraction of NaN passes the range check of \<open>_prepare\<close>: with the other settings
  valid, the sample IDs are read, whatever the cast of NaN to \<open>int64\<close> does afterwards.
\<close>

lemma prepare_nan_reads_samples:
  assumes "self s ''num_rep_cv'' = Some r" and "py_int env r = Inr n" and "1 < n"
    and "self s ''train_perc'' = Some (PyFloat NaN)"
    and "self s ''num_procs'' = Some np" and "check_num_procs env np = Inr k"
    and "self s ''grid_search_level'' = Some g" and "py_lower g = Inr level"
    and "level \<in> set (GRIDSEARCH_LEVELS c)"
    and "self s ''datasets'' = Some (Ext d)"
  shows "\<exists>t. trace (snd (prepare c env s)) = trace s @ EvSampleIds # t"
proof -
  have k: "keeps (step_rel UNIV (\<lambda>e. True)) (summarize_expt env)"
    unfolding summarize_expt_def by (intro keeps_intros) simp_all
  define rest :: "('a, unit) act" where "rest =
     (let id_list = samplet_ids env d;
               num_samples = int (length id_list)
           in
           thenm (set_attr ''_id_list'' (PyList id_list))
          (thenm (set_attr ''_num_samples'' (PyInt num_samples))
          (bindm (lift (np_int64_floor env (int_times_float num_samples NaN)))
             (\<lambda>train_set_size.
           thenm (set_attr ''_train_set_size'' (PyInt train_set_size))
          (thenm (set_attr ''_train_set_size''
                    (PyInt (max 1 (min num_samples train_set_size))))
          (bindm (read_attr ''out_dir'') (\<lambda>out_dir.
           bindm (lift (pjoin out_dir (results_file_name c))) (\<lambda>path.
           thenm (set_attr ''_out_results_path'' (PyStr path))
          (summarize_expt env)))))))))"
  have kr: "keeps (step_rel UNIV (\<lambda>e. True)) rest"
    unfolding rest_def Let_def by (intro keeps_intros k) simp_all
  have "prepare c env s =
          rest (s\<lparr>self := (self s)(''num_rep_cv'' \<mapsto> PyInt n, ''num_procs'' \<mapsto> PyInt k),
                 trace := trace s @ [EvSampleIds]\<rparr>)"
    using assms unfolding rest_def
    by (simp add: prepare_def step_simps np_isfinite_def py_num_def float_ge_def)
  moreover from kr have "grows (\<lambda>e. True)
       (s\<lparr>self := (self s)(''num_rep_cv'' \<mapsto> PyInt n, ''num_procs'' \<mapsto> PyInt k),
                 trace := trace s @ [EvSampleIds]\<rparr>)
       (snd (rest (s\<lparr>self := (self s)(''num_rep_cv'' \<mapsto> PyInt n, ''num_procs'' \<mapsto> PyInt k),
                 trace := trace s @ [EvSampleIds]\<rparr>)))"
    by (rule keeps_grows)
  ultimately show ?thesis by (auto simp: grows_def)
qed

text \<open>
  C5 at a train fraction of NaN, where the cast gives the smallest \<open>int64\<close>: both
  comparisons of the check are false, validation returns normally, the sample IDs are
  read, and the train-set size is set to 1.
\<close>

theorem nan_train_perc_accepted:
  "self (constructed ex_cfg ex_env (ex_args\<lparr>arg_train_perc := PyFloat NaN\<rparr>) empty_sys)
     ''train_perc'' = Some (PyFloat NaN)
   \<and> fst (prepare ex_cfg ex_env
            (constructed ex_cfg ex_env (ex_args\<lparr>arg_train_perc := PyFloat NaN\<rparr>) empty_sys))
      = Inr ()
   \<and> trace (snd (prepare ex_cfg ex_env
            (constructed ex_cfg ex_env (ex_args\<lparr>arg_train_perc := PyFloat NaN\<rparr>) empty_sys)))
      = [EvModalityIds, EvSampleIds, EvTargetSizes]
   \<and> self (snd (prepare ex_cfg ex_env
            (constructed ex_cfg ex_env (ex_args\<lparr>arg_train_perc := PyFloat NaN\<rparr>) empty_sys)))
        ''_train_set_size'' = Some (PyInt 1)"
proof -
  let ?s = "constructed ex_cfg ex_env (ex_args\<lparr>arg_train_perc := PyFloat NaN\<rparr>) empty_sys"
  have i: "?s = \<lparr>self = [''datasets'' \<mapsto> Ext Dataset,
        ''pred_model'' \<mapsto> PyStr ''svm'',
        ''impute_strategy'' \<mapsto> PyStr ''raise'',
        ''covariates'' \<mapsto> PyNone,
        ''deconfounder'' \<mapsto> PyStr ''residualize'',
        ''dim_red_method'' \<mapsto> PyStr ''variancethreshold'',
        ''reduced_dim'' \<mapsto> PyStr ''tenth'',
        ''train_perc'' \<mapsto> PyFloat NaN,
        ''num_rep_cv'' \<mapsto> PyInt 2,
        ''_scoring'' \<mapsto> PyStr ''accuracy'',
        ''grid_search_level'' \<mapsto> PyStr ''none'',
        ''out_dir'' \<mapsto> PyStr ''out'',
        ''num_procs'' \<mapsto> PyInt 1,
        ''user_options'' \<mapsto> PyNone,
        ''_checkpointing'' \<mapsto> PyBool False,
        ''_workflow_type'' \<mapsto> PyStr ''classify'',
        ''results'' \<mapsto> Ext (Acc [])], files = Map.empty, trace = [EvModalityIds], rng = 0\<rparr>"
    by (subst ex_init) (simp_all add: ex_args_def)
  have p: "prepare ex_cfg ex_env ?s =
             (Inr (), ?s\<lparr>self := (self ?s)(''num_rep_cv'' \<mapsto> PyInt 2,
                 ''num_procs'' \<mapsto> PyInt 1,
                 ''_id_list'' \<mapsto> PyList (map PyInt [1, 2, 3, 4, 5, 6, 7, 8, 9, 10]),
                 ''_num_samples'' \<mapsto> PyInt 10,
                 ''_train_set_size'' \<mapsto> PyInt 1,
                 ''_out_results_path'' \<mapsto> PyStr ''out/results.pkl'',
                 ''_target_sizes'' \<mapsto> PyList [PyInt 5, PyInt 5],
                 ''_chance_accuracy'' \<mapsto> PyFloat (Fin (1 / 2))),
               trace := trace ?s @ [EvSampleIds, EvTargetSizes]\<rparr>)"
    unfolding i
    by (simp add: prepare_def summarize_expt_def step_simps ex_cfg_def ex_env_def
        py_int_def py_num_def np_isfinite_def float_ge_def np_int64_floor_def pjoin_def Let_def)
       (simp add: set_attr_def)
  show ?thesis unfolding p by (simp add: i)
qed


section \<open>Persistence\<close>

text \<open>
  C2. When \<open>save\<close> can open the result path and pickle the dictionary, it returns the
  path, and \<open>load\<close> on a workflow with the same result path and the files that \<open>save\<close>
  left returns normally with every attribute named in \<open>results_to_save\<close> equal to
  \<open>getattr(self, name, None)\<close> of the saved workflow; the other attributes are unchanged.
\<close>

theorem save_load_round_trip:
  assumes p: "self s ''_out_results_path'' = Some (PyStr path)"
    and w: "can_open_w env path"
    and pk: "picklable env (map (\<lambda>var. (var, getattr_none (self s) var)) (results_to_save c))"
    and tp: "self t ''_out_results_path'' = Some (PyStr path)"
    and tf: "files t = files (snd (save c env s))"
  shows "fst (save c env s) = Inr path
       \<and> (\<exists>t'. load c env t = (Inr (), t')
             \<and> (\<forall>var \<in> set (results_to_save c).
                   self t' var = Some (getattr_none (self s) var))
             \<and> (\<forall>key. key \<in> set (results_to_save c) \<or> self t' key = self t key))"
proof -
  let ?d = "map (\<lambda>var. (var, getattr_none (self s) var)) (results_to_save c)"
  note sv = save_ok[OF p w pk]
  have f: "files t path = Some (Pickle ?d)" using tf sv by simp
  have k: "\<forall>var \<in> set (results_to_save c). map_of ?d var \<noteq> None"
    by (simp add: map_of_saved)
  from load_ok[OF tp f k, of env] obtain t' where
    t': "load c env t = (Inr (), t')"
        "\<forall>key. self t' key = (if key \<in> set (results_to_save c) then map_of ?d key else self t key)"
    by blast
  have "\<forall>var \<in> set (results_to_save c). self t' var = Some (getattr_none (self s) var)"
    using t'(2) by (simp add: map_of_saved)
  moreover have "\<forall>key. key \<in> set (results_to_save c) \<or> self t' key = self t key"
    using t'(2) by simp
  ultimately show ?thesis using sv t'(1) by auto
qed

theorem save_load_round_trip_witness:
  "self (empty_sys\<lparr>self := [''_out_results_path'' \<mapsto> PyStr ''out/results.pkl'',
                             ''results'' \<mapsto> Ext (Acc [''m1'']),
                             ''num_rep_cv'' \<mapsto> PyInt 2]\<rparr>) ''_out_results_path''
     = Some (PyStr ''out/results.pkl'')
   \<and> can_open_w ex_env ''out/results.pkl''
   \<and> fst (save ex_cfg ex_env
            (empty_sys\<lparr>self := [''_out_results_path'' \<mapsto> PyStr ''out/results.pkl'',
                             ''results'' \<mapsto> Ext (Acc [''m1'']),
                             ''num_rep_cv'' \<mapsto> PyInt 2]\<rparr>)) = Inr ''out/results.pkl''
   \<and> (\<exists>t'. load ex_cfg ex_env
               (empty_sys\<lparr>self := [''_out_results_path'' \<mapsto> PyStr ''out/results.pkl''],
                   files := files (snd (save ex_cfg ex_env
                     (empty_sys\<lparr>self := [''_out_results_path'' \<mapsto> PyStr ''out/results.pkl'',
                             ''results'' \<mapsto> Ext (Acc [''m1'']),
                             ''num_rep_cv'' \<mapsto> PyInt 2]\<rparr>)))\<rparr>) = (Inr (), t')
          \<and> self t' ''results'' = Some (Ext (Acc [''m1'']))
          \<and> self t' ''num_rep_cv'' = Some (PyInt 2)
          \<and> self t' ''_train_set_size'' = Some PyNone)"
proof -
  let ?s = "empty_sys\<lparr>self := [''_out_results_path'' \<mapsto> PyStr ''out/results.pkl'',
                             ''results'' \<mapsto> Ext (Acc [''m1'']),
                             ''num_rep_cv'' \<mapsto> PyInt 2]\<rparr>"
  let ?t = "empty_sys\<lparr>self := [''_out_results_path'' \<mapsto> PyStr ''out/results.pkl''],
                   files := files (snd (save ex_cfg ex_env ?s))\<rparr>"
  have p: "self ?s ''_out_results_path'' = Some (PyStr ''out/results.pkl'')" by simp
  have w: "can_open_w ex_env ''out/results.pkl''" by (simp add: ex_env_def)
  have pk: "picklable ex_env (map (\<lambda>var. (var, getattr_none (self ?s) var))
              (results_to_save ex_cfg))"
    by (simp add: ex_env_def)
  have tp: "self ?t ''_out_results_path'' = Some (PyStr ''out/results.pkl'')" by simp
  have tf: "files ?t = files (snd (save ex_cfg ex_env ?s))" by simp
  have r: "results_to_save ex_cfg = [''results'', ''num_rep_cv'', ''_train_set_size'']"
    by (simp add: ex_cfg_def)
  from save_load_round_trip[OF p w pk tp tf] obtain t' where
    t': "fst (save ex_cfg ex_env ?s) = Inr ''out/results.pkl''"
        "load ex_cfg ex_env ?t = (Inr (), t')"
        "\<forall>var \<in> set (results_to_save ex_cfg). self t' var = Some (getattr_none (self ?s) var)"
    by blast
  from t'(3) have "self t' ''results'' = Some (Ext (Acc [''m1'']))"
    "self t' ''num_rep_cv'' = Some (PyInt 2)" "self t' ''_train_set_size'' = Some PyNone"
    unfolding r by (simp_all add: getattr_none_def)
  with t'(1,2) p w show ?thesis by blast
qed





lemma valid_config_files [simp]:
  "valid_config c env (s\<lparr>files := f\<rparr>) n p k d out = valid_config c env s n p k d out"
  by (simp add: valid_config_def)





section \<open>Deconfounding\<close>










end
